theory Spec2Isabelle
  imports Complex_Main "HOL-Library.Multiset"
begin

section \<open>The Animator's software 3D pipeline\<close>

text \<open>
  The Animator component keeps its state in React hooks and renders a mesh with a
  hand-written projection, a Y-band skinning heuristic and a painter's-algorithm sort.
  JavaScript numbers are modelled as \<^typ>\<open>real\<close>: the arithmetic is the ideal one, without
  rounding, infinities or NaN; the constant \<^verbatim>\<open>Math.PI\<close> is the number the code has, so
  that the sine and cosine are taken at the angles the code takes them at. Division by
  zero, which JavaScript answers with an infinity, is excluded by a hypothesis wherever a
  statement depends on the value of the quotient.
  A handler is a function from the state before an event to the state after it; the
  playback and loading flags of the component, which none of these handlers reads, are
  left out of the state.
\<close>

subsection \<open>Types of \<^verbatim>\<open>types.ts\<close>\<close>

datatype Bone = Head | Torso | Left_arm | Right_arm | Left_leg | Right_leg

text \<open>The bone ids the Animator works with, the ones \<^verbatim>\<open>BONES\<close> lists, and the string
  literal behind each.\<close>

fun bone_name :: "Bone \<Rightarrow> string" where
  "bone_name Head = ''head''"
| "bone_name Torso = ''torso''"
| "bone_name Left_arm = ''left-arm''"
| "bone_name Right_arm = ''right-arm''"
| "bone_name Left_leg = ''left-leg''"
| "bone_name Right_leg = ''right-leg''"

datatype ModelPose = T_pose | Standing | Walking | Running | Action | Sitting

datatype ModelView = Front | Isometric | Side | Back | Top

datatype Axis = AxisX | AxisY | AxisZ

record Vector3 =
  v_x :: real
  v_y :: real
  v_z :: real

text \<open>A mesh vertex is the array \<^verbatim>\<open>[x, y, z]\<close>; a face is three vertex indices and an
  optional colour.\<close>

type_synonym Vertex = "real \<times> real \<times> real"

record Face =
  f_a :: nat
  f_b :: nat
  f_c :: nat
  f_color :: "string option"

record MeshGeometry =
  vertices :: "Vertex list"
  faces :: "Face list"

subsection \<open>Constants of the component\<close>

record BoneDesc =
  bone_id :: Bone
  label :: string
  parent :: "Bone option"
  defaultPos :: Vector3
  influenceY :: "real \<times> real"

definition vec3 :: "real \<Rightarrow> real \<Rightarrow> real \<Rightarrow> Vector3" where
  "vec3 a b c = \<lparr>v_x = a, v_y = b, v_z = c\<rparr>"

definition BONES :: "BoneDesc list" where
  "BONES =
    [\<lparr>bone_id = Head, label = ''Head'', parent = None,
       defaultPos = vec3 0 1.6 0, influenceY = (1.4, 2.0)\<rparr>,
     \<lparr>bone_id = Torso, label = ''Torso'', parent = None,
       defaultPos = vec3 0 1.0 0, influenceY = (0.6, 1.4)\<rparr>,
     \<lparr>bone_id = Left_arm, label = ''Arm.L'', parent = Some Torso,
       defaultPos = vec3 (-0.6) 1.3 0, influenceY = (1.1, 1.5)\<rparr>,
     \<lparr>bone_id = Right_arm, label = ''Arm.R'', parent = Some Torso,
       defaultPos = vec3 0.6 1.3 0, influenceY = (1.1, 1.5)\<rparr>,
     \<lparr>bone_id = Left_leg, label = ''Leg.L'', parent = Some Torso,
       defaultPos = vec3 (-0.3) 0.5 0, influenceY = (0, 0.7)\<rparr>,
     \<lparr>bone_id = Right_leg, label = ''Leg.R'', parent = Some Torso,
       defaultPos = vec3 0.3 0.5 0, influenceY = (0, 0.7)\<rparr>]"

definition POSES :: "(ModelPose \<times> string) list" where
  "POSES = [(T_pose, ''T-Pose''), (Standing, ''Standing''), (Walking, ''Walking''),
            (Running, ''Running''), (Action, ''Action''), (Sitting, ''Sitting'')]"

record Rotation =
  rot_x :: real
  rot_y :: real

record ViewDesc =
  view_id :: ModelView
  view_label :: string
  rot :: Rotation

definition VIEWS :: "ViewDesc list" where
  "VIEWS =
    [\<lparr>view_id = Front, view_label = ''Front'', rot = \<lparr>rot_x = 0, rot_y = 0\<rparr>\<rparr>,
     \<lparr>view_id = Isometric, view_label = ''Isometric'', rot = \<lparr>rot_x = 30, rot_y = 45\<rparr>\<rparr>,
     \<lparr>view_id = Side, view_label = ''Side'', rot = \<lparr>rot_x = 0, rot_y = 90\<rparr>\<rparr>,
     \<lparr>view_id = Back, view_label = ''Back'', rot = \<lparr>rot_x = 0, rot_y = 180\<rparr>\<rparr>,
     \<lparr>view_id = Top, view_label = ''Top'', rot = \<lparr>rot_x = 90, rot_y = 0\<rparr>\<rparr>]"

subsection \<open>Projection\<close>

record Projected =
  p_x :: real
  p_y :: real
  p_depth :: real
  p_scale :: real

text \<open>\<^verbatim>\<open>Math.PI\<close> is the double nearest to \<open>\<pi>\<close>, the rational 884279719003555 / 2^48,
  a little below \<open>\<pi>\<close>. With it the cosine of 90 degrees is a small positive number and
  not 0, as it is in the code.\<close>

definition Math_PI :: real where
  "Math_PI = 884279719003555 / 281474976710656"

text \<open>\<^verbatim>\<open>project\<close> reads the camera rotation and zoom of the component; here they are its
  first two arguments.\<close>

definition project :: "Rotation \<Rightarrow> real \<Rightarrow> real \<Rightarrow> real \<Rightarrow> real \<Rightarrow> Projected" where
  "project rotation cameraZoom x y z =
    (let radY = (rot_y rotation * Math_PI) / 180;
         x1 = x * cos radY - z * sin radY;
         z1 = x * sin radY + z * cos radY;
         radX = (rot_x rotation * Math_PI) / 180;
         y2 = y * cos radX - z1 * sin radX;
         z2 = y * sin radX + z1 * cos radX;
         scale = (400 * cameraZoom) / (z2 + 5)
     in \<lparr>p_x = 400 + x1 * 150 * scale,
         p_y = 300 - y2 * 150 * scale,
         p_depth = z2,
         p_scale = scale\<rparr>)"

subsection \<open>Skinning\<close>

text \<open>\<^verbatim>\<open>String.prototype.includes\<close>: the second string occurs somewhere in the first.\<close>

fun starts_with :: "string \<Rightarrow> string \<Rightarrow> bool" where
  "starts_with s [] = True"
| "starts_with [] (c # cs) = False"
| "starts_with (d # ds) (c # cs) = (d = c \<and> starts_with ds cs)"

fun str_includes :: "string \<Rightarrow> string \<Rightarrow> bool" where
  "str_includes [] sub = (sub = [])"
| "str_includes (d # ds) sub = (starts_with (d # ds) sub \<or> str_includes ds sub)"

text \<open>The accumulators of \<^verbatim>\<open>getSkinnedVertex\<close>: the summed influence and \<^verbatim>\<open>weightTotal\<close>.\<close>

type_synonym SkinAcc = "Vector3 \<times> nat"

text \<open>The body of the \<^verbatim>\<open>BONES.forEach\<close> callback. A \<^verbatim>\<open>return\<close> leaves the accumulators
  as they are.\<close>

definition skin_bone :: "(Bone \<Rightarrow> Vector3) \<Rightarrow> Vertex \<Rightarrow> BoneDesc \<Rightarrow> SkinAcc \<Rightarrow> SkinAcc" where
  "skin_bone bonePositions v bone acc =
    (case v of (vx, vy, vz) \<Rightarrow>
     case influenceY bone of (minY, maxY) \<Rightarrow>
     case acc of (influence, weightTotal) \<Rightarrow>
       if vy \<ge> minY \<and> vy \<le> maxY then
         (let isLeft = (str_includes (bone_name (bone_id bone)) ''left''
                        \<or> str_includes (bone_name (bone_id bone)) ''.L'');
              isRight = (str_includes (bone_name (bone_id bone)) ''right''
                         \<or> str_includes (bone_name (bone_id bone)) ''.R'')
          in if isLeft \<and> vx > 0 then acc
             else if isRight \<and> vx < 0 then acc
             else
               (let currentPos = bonePositions (bone_id bone);
                    dPos = defaultPos bone;
                    dx = v_x currentPos - v_x dPos;
                    dy = v_y currentPos - v_y dPos;
                    dz = v_z currentPos - v_z dPos
                in (\<lparr>v_x = v_x influence + dx,
                     v_y = v_y influence + dy,
                     v_z = v_z influence + dz\<rparr>, weightTotal + 1)))
       else acc)"

definition getSkinnedVertex :: "(Bone \<Rightarrow> Vector3) \<Rightarrow> Vertex \<Rightarrow> Vertex" where
  "getSkinnedVertex bonePositions v =
    (case v of (vx, vy, vz) \<Rightarrow>
     case fold (skin_bone bonePositions v) BONES (vec3 0 0 0, 0) of
       (influence, weightTotal) \<Rightarrow>
         if weightTotal > 0
         then (vx + v_x influence, vy + v_y influence, vz + v_z influence)
         else (vx, vy, vz))"

text \<open>The initial value of \<^verbatim>\<open>bonePositions\<close>: \<^verbatim>\<open>BONES.reduce\<close> stores a copy of each
  bone's default position under the bone's id, a later entry replacing an earlier one.
  The reduction starts from the empty object; every bone id gets an entry, so the value
  standing for a missing entry is never read.\<close>

definition defaultBonePositions :: "Bone \<Rightarrow> Vector3" where
  "defaultBonePositions =
     fold (\<lambda>bone acc. acc(bone_id bone := defaultPos bone)) BONES (\<lambda>_. vec3 0 0 0)"

text \<open>What the statements about skinning speak of: a bone's displacement from its default
  pose, and the test \<^verbatim>\<open>vy >= minY && vy <= maxY\<close> on a bone's band.\<close>

definition bone_offset :: "(Bone \<Rightarrow> Vector3) \<Rightarrow> BoneDesc \<Rightarrow> Vector3" where
  "bone_offset bp bone =
     \<lparr>v_x = v_x (bp (bone_id bone)) - v_x (defaultPos bone),
      v_y = v_y (bp (bone_id bone)) - v_y (defaultPos bone),
      v_z = v_z (bp (bone_id bone)) - v_z (defaultPos bone)\<rparr>"

definition in_band :: "real \<Rightarrow> BoneDesc \<Rightarrow> bool" where
  "in_band vy bone = (fst (influenceY bone) \<le> vy \<and> vy \<le> snd (influenceY bone))"

subsection \<open>Renderer\<close>

datatype error = TypeError

record RenderedFace =
  points :: "Projected list"
  color :: string
  depth :: real

text \<open>The callback of \<^verbatim>\<open>mesh.faces.map\<close>. An index outside \<^verbatim>\<open>transformedVertices\<close> reads
  \<^verbatim>\<open>undefined\<close>, and indexing that throws. \<^verbatim>\<open>face[3] || '#cccccc'\<close> takes the default also
  for an empty colour string.\<close>

definition faceToRender ::
  "Rotation \<Rightarrow> real \<Rightarrow> Vertex list \<Rightarrow> Face \<Rightarrow> error + RenderedFace" where
  "faceToRender rotation cameraZoom transformedVertices face =
    (if f_a face < length transformedVertices \<and> f_b face < length transformedVertices
        \<and> f_c face < length transformedVertices
     then
       (case transformedVertices ! f_a face of (v1x, v1y, v1z) \<Rightarrow>
        case transformedVertices ! f_b face of (v2x, v2y, v2z) \<Rightarrow>
        case transformedVertices ! f_c face of (v3x, v3y, v3z) \<Rightarrow>
          (let fcolor = (case f_color face of None \<Rightarrow> ''#cccccc''
                         | Some c \<Rightarrow> if c = [] then ''#cccccc'' else c);
               p1 = project rotation cameraZoom v1x v1y v1z;
               p2 = project rotation cameraZoom v2x v2y v2z;
               p3 = project rotation cameraZoom v3x v3y v3z;
               d = (p_depth p1 + p_depth p2 + p_depth p3) / 3
           in Inr \<lparr>points = [p1, p2, p3], color = fcolor, depth = d\<rparr>))
     else Inl TypeError)"

fun map_faces :: "(Face \<Rightarrow> error + RenderedFace) \<Rightarrow> Face list \<Rightarrow> error + RenderedFace list" where
  "map_faces f [] = Inr []"
| "map_faces f (face # rest) =
     (case f face of
        Inl e \<Rightarrow> Inl e
      | Inr r \<Rightarrow> (case map_faces f rest of Inl e \<Rightarrow> Inl e | Inr rs \<Rightarrow> Inr (r # rs)))"

text \<open>\<^verbatim>\<open>Array.prototype.sort\<close> with a comparator is a stable sort: \<^verbatim>\<open>a\<close> stays before \<^verbatim>\<open>b\<close>
  unless the comparator is positive. Insertion from the right end gives that order.\<close>

fun insert_cmp :: "('a \<Rightarrow> 'a \<Rightarrow> real) \<Rightarrow> 'a \<Rightarrow> 'a list \<Rightarrow> 'a list" where
  "insert_cmp cmp a [] = [a]"
| "insert_cmp cmp a (b # bs) = (if cmp a b \<le> 0 then a # b # bs else b # insert_cmp cmp a bs)"

definition sort_cmp :: "('a \<Rightarrow> 'a \<Rightarrow> real) \<Rightarrow> 'a list \<Rightarrow> 'a list" where
  "sort_cmp cmp xs = foldr (insert_cmp cmp) xs []"

definition depth_cmp :: "RenderedFace \<Rightarrow> RenderedFace \<Rightarrow> real" where
  "depth_cmp a b = depth b - depth a"

text \<open>The draw list of \<^verbatim>\<open>RenderedMesh\<close>: the polygons in the order they are emitted.\<close>

definition facesToRender ::
  "Rotation \<Rightarrow> real \<Rightarrow> (Bone \<Rightarrow> Vector3) \<Rightarrow> MeshGeometry \<Rightarrow> error + RenderedFace list" where
  "facesToRender rotation cameraZoom bonePositions m =
    (let transformedVertices = map (getSkinnedVertex bonePositions) (vertices m)
     in case map_faces (faceToRender rotation cameraZoom transformedVertices) (faces m) of
          Inl e \<Rightarrow> Inl e
        | Inr fs \<Rightarrow> Inr (sort_cmp depth_cmp fs))"

subsection \<open>Component state and input handlers\<close>

datatype Tool = Select | Move | Rotate | Scale

record MouseEvent =
  clientX :: real
  clientY :: real

record GizmoDrag =
  startX :: real
  startY :: real
  startVal :: real

record Animator =
  currentTool :: Tool
  selectedBone :: "Bone option"
  activePose :: ModelPose
  activeView :: ModelView
  mesh :: "MeshGeometry option"
  rotation :: Rotation
  cameraZoom :: real
  isDragging :: bool
  lastMouse :: "real \<times> real"
  activeGizmoAxis :: "Axis option"
  gizmoDrag :: "GizmoDrag option"
  bonePositions :: "Bone \<Rightarrow> Vector3"

text \<open>The state of the Animator with pose and view presets when it mounts. The Animator
  without presets starts with the camera pitch at 15 instead of 30.\<close>

definition initialAnimator :: Animator where
  "initialAnimator =
     \<lparr>currentTool = Move, selectedBone = None, activePose = T_pose, activeView = Isometric,
      mesh = None, rotation = \<lparr>rot_x = 30, rot_y = 45\<rparr>, cameraZoom = 1,
      isDragging = False, lastMouse = (0, 0), activeGizmoAxis = None, gizmoDrag = None,
      bonePositions = defaultBonePositions\<rparr>"

definition initialAnimatorBasic :: Animator where
  "initialAnimatorBasic = initialAnimator\<lparr>rotation := \<lparr>rot_x = 15, rot_y = 45\<rparr>\<rparr>"

definition RenderedMesh :: "Animator \<Rightarrow> error + RenderedFace list" where
  "RenderedMesh st =
     (case mesh st of
        None \<Rightarrow> Inr []
      | Some m \<Rightarrow> facesToRender (rotation st) (cameraZoom st) (bonePositions st) m)"

fun axis_get :: "Axis \<Rightarrow> Vector3 \<Rightarrow> real" where
  "axis_get AxisX p = v_x p"
| "axis_get AxisY p = v_y p"
| "axis_get AxisZ p = v_z p"

fun axis_set :: "Axis \<Rightarrow> real \<Rightarrow> Vector3 \<Rightarrow> Vector3" where
  "axis_set AxisX val p = p\<lparr>v_x := val\<rparr>"
| "axis_set AxisY val p = p\<lparr>v_y := val\<rparr>"
| "axis_set AxisZ val p = p\<lparr>v_z := val\<rparr>"

definition handleBoneChange :: "Animator \<Rightarrow> Axis \<Rightarrow> real \<Rightarrow> Animator" where
  "handleBoneChange st axis val =
     (case selectedBone st of
        None \<Rightarrow> st
      | Some b \<Rightarrow>
          st\<lparr>bonePositions := (bonePositions st)(b := axis_set axis val (bonePositions st b))\<rparr>)"

definition handleMouseDown :: "Animator \<Rightarrow> MouseEvent \<Rightarrow> Animator" where
  "handleMouseDown st e =
     (if activeGizmoAxis st \<noteq> None then st
      else st\<lparr>isDragging := True, lastMouse := (clientX e, clientY e)\<rparr>)"

text \<open>The screen vector of the dragged axis: the projection of the bone's position and of
  the point half a unit further along the axis.\<close>

definition gizmoScreenVec :: "Animator \<Rightarrow> Bone \<Rightarrow> Axis \<Rightarrow> real \<times> real" where
  "gizmoScreenVec st bone axis =
     (let pos = bonePositions st bone;
          origin = project (rotation st) (cameraZoom st) (v_x pos) (v_y pos) (v_z pos);
          axisVec = axis_set axis (axis_get axis pos + 0.5) pos;
          projectedAxis =
            project (rotation st) (cameraZoom st) (v_x axisVec) (v_y axisVec) (v_z axisVec)
      in (p_x projectedAxis - p_x origin, p_y projectedAxis - p_y origin))"

text \<open>What a move adds to the value recorded at the start of the drag. \<^verbatim>\<open>len || 1\<close> is 1
  when \<^verbatim>\<open>len\<close> is 0.\<close>

definition gizmoMovement :: "Animator \<Rightarrow> MouseEvent \<Rightarrow> Axis \<Rightarrow> Bone \<Rightarrow> GizmoDrag \<Rightarrow> real" where
  "gizmoMovement st e axis bone g =
     (let dx = clientX e - startX g;
          dy = clientY e - startY g;
          screenVecX = fst (gizmoScreenVec st bone axis);
          screenVecY = snd (gizmoScreenVec st bone axis);
          len = sqrt (screenVecX * screenVecX + screenVecY * screenVecY);
          normX = (if len > 0 then screenVecX / len else 0);
          normY = (if len > 0 then screenVecY / len else 0);
          projection = dx * normX + dy * normY;
          sensitivity = 0.005 / cameraZoom st
      in projection * sensitivity * (1000 / (if len = 0 then 1 else len)))"

definition handleMouseMove :: "Animator \<Rightarrow> MouseEvent \<Rightarrow> Animator" where
  "handleMouseMove st e =
     (if activeGizmoAxis st \<noteq> None \<and> selectedBone st \<noteq> None \<and> gizmoDrag st \<noteq> None then
        (let axis = the (activeGizmoAxis st);
             bone = the (selectedBone st);
             g = the (gizmoDrag st);
             newVal = startVal g + gizmoMovement st e axis bone g
         in handleBoneChange st axis newVal)
      else if isDragging st then
        (let dx = clientX e - fst (lastMouse st);
             dy = clientY e - snd (lastMouse st)
         in st\<lparr>rotation :=
                 \<lparr>rot_x = max (-90) (min 90 (rot_x (rotation st) + dy * 0.5)),
                  rot_y = rot_y (rotation st) + dx * 0.5\<rparr>,
               lastMouse := (clientX e, clientY e)\<rparr>)
      else st)"

definition handleMouseUp :: "Animator \<Rightarrow> Animator" where
  "handleMouseUp st = st\<lparr>isDragging := False, activeGizmoAxis := None, gizmoDrag := None\<rparr>"

definition handleWheel :: "Animator \<Rightarrow> real \<Rightarrow> Animator" where
  "handleWheel st deltaY =
     (let newZoom = cameraZoom st - deltaY * 0.001
      in st\<lparr>cameraZoom := max 0.1 (min 5 newZoom)\<rparr>)"

definition handleGizmoMouseDown :: "Animator \<Rightarrow> MouseEvent \<Rightarrow> Axis \<Rightarrow> Animator" where
  "handleGizmoMouseDown st e axis =
     (case selectedBone st of
        None \<Rightarrow> st
      | Some b \<Rightarrow>
          st\<lparr>activeGizmoAxis := Some axis,
             gizmoDrag := Some \<lparr>startX = clientX e, startY = clientY e,
                                startVal = axis_get axis (bonePositions st b)\<rparr>\<rparr>)"

definition handlePoseSelect :: "Animator \<Rightarrow> ModelPose \<Rightarrow> Animator" where
  "handlePoseSelect st pose =
     st\<lparr>activePose := pose,
        bonePositions :=
          fold (\<lambda>bone acc. acc(bone_id bone := defaultPos bone)) BONES (\<lambda>_. vec3 0 0 0)\<rparr>"

definition handleViewSelect :: "Animator \<Rightarrow> ModelView \<Rightarrow> Animator" where
  "handleViewSelect st view =
     (case find (\<lambda>v. view_id v = view) VIEWS of
        None \<Rightarrow> st\<lparr>activeView := view\<rparr>
      | Some viewConfig \<Rightarrow> st\<lparr>activeView := view, rotation := rot viewConfig\<rparr>)"

text \<open>The events the component is wired to, and the handler each one runs. A mouse-down on
  a gizmo line stops propagation, so the canvas handler does not run for it; leaving the
  canvas runs the mouse-up handler.\<close>

datatype Event =
    MouseDown MouseEvent
  | MouseMove MouseEvent
  | MouseUp
  | Wheel real
  | GizmoMouseDown MouseEvent Axis
  | SelectBone Bone
  | BoneInput Axis real
  | PoseSelect ModelPose
  | ViewSelect ModelView

fun dispatch :: "Animator \<Rightarrow> Event \<Rightarrow> Animator" where
  "dispatch st (MouseDown e) = handleMouseDown st e"
| "dispatch st (MouseMove e) = handleMouseMove st e"
| "dispatch st MouseUp = handleMouseUp st"
| "dispatch st (Wheel deltaY) = handleWheel st deltaY"
| "dispatch st (GizmoMouseDown e axis) = handleGizmoMouseDown st e axis"
| "dispatch st (SelectBone b) = st\<lparr>selectedBone := Some b\<rparr>"
| "dispatch st (BoneInput axis val) = handleBoneChange st axis val"
| "dispatch st (PoseSelect pose) = handlePoseSelect st pose"
| "dispatch st (ViewSelect view) = handleViewSelect st view"

subsection \<open>Notions the statements use\<close>

text \<open>The pointer events of the canvas: press, move, release or leave, and wheel.\<close>

fun pointer_event :: "Event \<Rightarrow> bool" where
  "pointer_event (MouseDown e) = True"
| "pointer_event (MouseMove e) = True"
| "pointer_event MouseUp = True"
| "pointer_event (Wheel d) = True"
| "pointer_event ev = False"

text \<open>The yaw increments a run of events applies: one for each move that reaches the
  orbit branch of \<^verbatim>\<open>handleMouseMove\<close>, the pointer's horizontal travel since the last
  move times 0.5.\<close>

fun yaw_deltas :: "Animator \<Rightarrow> Event list \<Rightarrow> real list" where
  "yaw_deltas st [] = []"
| "yaw_deltas st (MouseMove e # evs) =
     (if isDragging st
          \<and> \<not> (activeGizmoAxis st \<noteq> None \<and> selectedBone st \<noteq> None \<and> gizmoDrag st \<noteq> None)
      then [(clientX e - fst (lastMouse st)) * 0.5] else [])
       @ yaw_deltas (dispatch st (MouseMove e)) evs"
| "yaw_deltas st (ev # evs) = yaw_deltas (dispatch st ev) evs"

text \<open>What every run of pointer events from the initial state keeps: no gizmo axis is
  active and the pitch is inside its range.\<close>

definition orbit_ready :: "Animator \<Rightarrow> bool" where
  "orbit_ready st =
     (activeGizmoAxis st = None \<and> - 90 \<le> rot_x (rotation st) \<and> rot_x (rotation st) \<le> 90)"

text \<open>The divisions of a gizmo move have non-zero divisors: the zoom, and the camera
  distance of the bone and of the point half a unit along the axis.\<close>

definition gizmo_projection_defined :: "Animator \<Rightarrow> Bone \<Rightarrow> Axis \<Rightarrow> bool" where
  "gizmo_projection_defined st bone axis =
     (let pos = bonePositions st bone;
          axisVec = axis_set axis (axis_get axis pos + 0.5) pos
      in cameraZoom st \<noteq> 0 \<and>
         p_depth (project (rotation st) (cameraZoom st) (v_x pos) (v_y pos) (v_z pos)) + 5 \<noteq> 0 \<and>
         p_depth (project (rotation st) (cameraZoom st)
                    (v_x axisVec) (v_y axisVec) (v_z axisVec)) + 5 \<noteq> 0)"

text \<open>The events of a gizmo drag between the press and the last move: moves and wheel turns.\<close>

fun drag_event :: "Event \<Rightarrow> bool" where
  "drag_event (MouseMove e) = True"
| "drag_event (Wheel d) = True"
| "drag_event ev = False"

text \<open>The divisors are non-zero in every state a run of events passes through.\<close>

fun gizmo_run_defined :: "Animator \<Rightarrow> Bone \<Rightarrow> Axis \<Rightarrow> Event list \<Rightarrow> bool" where
  "gizmo_run_defined st bone axis [] = gizmo_projection_defined st bone axis"
| "gizmo_run_defined st bone axis (ev # evs) =
     (gizmo_projection_defined st bone axis \<and> gizmo_run_defined (dispatch st ev) bone axis evs)"

text \<open>What the renderer is to draw for a face: the projections of the face's three skinned
  vertices, the face's colour or the default grey, and the arithmetic mean of the three
  projected depths.\<close>

definition face_polygon :: "Animator \<Rightarrow> MeshGeometry \<Rightarrow> Face \<Rightarrow> RenderedFace" where
  "face_polygon st m face =
     (let skinned = (\<lambda>i. getSkinnedVertex (bonePositions st) (vertices m ! i));
          proj = (\<lambda>v. case v of (x, y, z) \<Rightarrow> project (rotation st) (cameraZoom st) x y z);
          p1 = proj (skinned (f_a face));
          p2 = proj (skinned (f_b face));
          p3 = proj (skinned (f_c face))
      in \<lparr>points = [p1, p2, p3],
          color = (case f_color face of None \<Rightarrow> ''#cccccc''
                   | Some c \<Rightarrow> if c = [] then ''#cccccc'' else c),
          depth = (p_depth p1 + p_depth p2 + p_depth p3) / 3\<rparr>)"

text \<open>Every face index lies inside the vertex list.\<close>

definition valid_faces :: "MeshGeometry \<Rightarrow> bool" where
  "valid_faces m =
     (\<forall>face \<in> set (faces m). f_a face < length (vertices m) \<and>
        f_b face < length (vertices m) \<and> f_c face < length (vertices m))"

text \<open>Two coincident faces, the red one listed before the blue one.\<close>

definition mesh_tie :: MeshGeometry where
  "mesh_tie = \<lparr>vertices = [(0, 0, 0), (1, 0, 0), (0, 1, 0)],
     faces = [\<lparr>f_a = 0, f_b = 1, f_c = 2, f_color = Some ''#ff0000''\<rparr>,
              \<lparr>f_a = 0, f_b = 1, f_c = 2, f_color = Some ''#0000ff''\<rparr>]\<rparr>"

text \<open>A mesh of three faces at the depths 5, 1 and 3 under the front view.\<close>

definition mesh0 :: MeshGeometry where
  "mesh0 = \<lparr>vertices = [(0, 0, 5), (0, 0, 1), (0, 0, 3)],
     faces = [\<lparr>f_a = 0, f_b = 0, f_c = 0, f_color = None\<rparr>,
              \<lparr>f_a = 1, f_b = 1, f_c = 1, f_color = Some ''#ff0000''\<rparr>,
              \<lparr>f_a = 2, f_b = 2, f_c = 2, f_color = None\<rparr>]\<rparr>"


section \<open>Projection at the identity camera\<close>

text \<open>
  C2, amended. At pitch 0, yaw 0 and zoom 1 the depth of a projected point is its z
  coordinate. The screen coordinates are affine in (x, y) for each depth z other than -5,
  with centre (400, 300) and slope 60000 / (z + 5): the slope depends on z, so no single
  affine map of (x, y) serves all points.
\<close>

theorem project_identity_camera:
  "p_depth (project \<lparr>rot_x = 0, rot_y = 0\<rparr> 1 x y z) = z \<and>
   (z \<noteq> -5 \<longrightarrow>
      p_x (project \<lparr>rot_x = 0, rot_y = 0\<rparr> 1 x y z) = 400 + (60000 / (z + 5)) * x \<and>
      p_y (project \<lparr>rot_x = 0, rot_y = 0\<rparr> 1 x y z) = 300 - (60000 / (z + 5)) * y)"
  by (simp add: project_def)

theorem project_identity_camera_witness:
  "p_depth (project \<lparr>rot_x = 0, rot_y = 0\<rparr> 1 1 2 5) = 5 \<and>
   p_x (project \<lparr>rot_x = 0, rot_y = 0\<rparr> 1 1 2 5) = 6400 \<and>
   p_y (project \<lparr>rot_x = 0, rot_y = 0\<rparr> 1 1 2 5) = -11700"
  using project_identity_camera [of 1 2 5] by simp

text \<open>The same (x, y) at two depths lands on two different screen positions.\<close>

theorem project_identity_not_fixed_affine:
  "p_x (project \<lparr>rot_x = 0, rot_y = 0\<rparr> 1 1 0 0) = 12400 \<and>
   p_x (project \<lparr>rot_x = 0, rot_y = 0\<rparr> 1 1 0 5) = 6400 \<and>
   p_x (project \<lparr>rot_x = 0, rot_y = 0\<rparr> 1 1 0 0)
     \<noteq> p_x (project \<lparr>rot_x = 0, rot_y = 0\<rparr> 1 1 0 5)"
  by (simp add: project_def)

section \<open>Skinning\<close>

lemma defaultBonePositions_simps:
  "defaultBonePositions Head = vec3 0 1.6 0"
  "defaultBonePositions Torso = vec3 0 1.0 0"
  "defaultBonePositions Left_arm = vec3 (-0.6) 1.3 0"
  "defaultBonePositions Right_arm = vec3 0.6 1.3 0"
  "defaultBonePositions Left_leg = vec3 (-0.3) 0.5 0"
  "defaultBonePositions Right_leg = vec3 0.3 0.5 0"
  by (simp_all add: defaultBonePositions_def BONES_def)

lemma default_on_BONES:
  "\<forall>bone \<in> set BONES. defaultBonePositions (bone_id bone) = defaultPos bone"
  by (simp add: BONES_def defaultBonePositions_simps)

lemma no_label_marker:
  "\<not> str_includes (bone_name b) ''.L''" "\<not> str_includes (bone_name b) ''.R''"
  by (cases b; simp)+

lemma skin_bone_wrong_side_left:
  "str_includes (bone_name (bone_id bone)) ''left'' \<Longrightarrow> vx > 0 \<Longrightarrow>
   skin_bone bp (vx, vy, vz) bone acc = acc"
  by (simp add: skin_bone_def split: prod.splits)

lemma skin_bone_wrong_side_right:
  "str_includes (bone_name (bone_id bone)) ''right'' \<Longrightarrow> vx < 0 \<Longrightarrow>
   skin_bone bp (vx, vy, vz) bone acc = acc"
  by (simp add: skin_bone_def split: prod.splits)

lemma skin_bone_contributes:
  "fst (influenceY bone) \<le> vy \<Longrightarrow> vy \<le> snd (influenceY bone) \<Longrightarrow>
   \<not> (str_includes (bone_name (bone_id bone)) ''left'' \<and> vx > 0) \<Longrightarrow>
   \<not> (str_includes (bone_name (bone_id bone)) ''right'' \<and> vx < 0) \<Longrightarrow>
   skin_bone bp (vx, vy, vz) bone (influence, w) =
     (\<lparr>v_x = v_x influence + (v_x (bp (bone_id bone)) - v_x (defaultPos bone)),
       v_y = v_y influence + (v_y (bp (bone_id bone)) - v_y (defaultPos bone)),
       v_z = v_z influence + (v_z (bp (bone_id bone)) - v_z (defaultPos bone))\<rparr>, Suc w)"
  by (auto simp add: skin_bone_def no_label_marker Let_def split: prod.splits)

lemma skin_bone_default:
  "bp (bone_id bone) = defaultPos bone \<Longrightarrow> fst (skin_bone bp v bone acc) = fst acc"
  by (cases v; cases acc) (simp add: skin_bone_def Let_def split: prod.splits)

lemma fold_skin_default:
  "\<forall>bone \<in> set bs. bp (bone_id bone) = defaultPos bone \<Longrightarrow>
   fst (fold (skin_bone bp v) bs acc) = fst acc"
  by (induction bs arbitrary: acc) (simp_all add: skin_bone_default)

lemma skin_bone_cong_left:
  assumes "\<forall>b. \<not> str_includes (bone_name b) ''left'' \<longrightarrow> bp b = bp' b" "vx > 0"
  shows "skin_bone bp (vx, vy, vz) bone = skin_bone bp' (vx, vy, vz) bone"
proof (cases "str_includes (bone_name (bone_id bone)) ''left''")
  case True
  with assms(2) show ?thesis by (intro ext) (simp add: skin_bone_wrong_side_left)
next
  case False
  with assms(1) have "bp (bone_id bone) = bp' (bone_id bone)" by simp
  then show ?thesis by (intro ext) (simp add: skin_bone_def Let_def split: prod.splits)
qed

lemma skin_bone_cong_right:
  assumes "\<forall>b. \<not> str_includes (bone_name b) ''right'' \<longrightarrow> bp b = bp' b" "vx < 0"
  shows "skin_bone bp (vx, vy, vz) bone = skin_bone bp' (vx, vy, vz) bone"
proof (cases "str_includes (bone_name (bone_id bone)) ''right''")
  case True
  with assms(2) show ?thesis by (intro ext) (simp add: skin_bone_wrong_side_right)
next
  case False
  with assms(1) have "bp (bone_id bone) = bp' (bone_id bone)" by simp
  then show ?thesis by (intro ext) (simp add: skin_bone_def Let_def split: prod.splits)
qed

lemma getSkinnedVertex_cong:
  "skin_bone bp v = skin_bone bp' v \<Longrightarrow> getSkinnedVertex bp v = getSkinnedVertex bp' v"
  by (simp add: getSkinnedVertex_def)


text \<open>
  C1, amended. A bone whose id contains "left" leaves the accumulators of a vertex with
  x > 0 as they are, and a bone whose id contains "right" those of a vertex with x < 0.
  A vertex with x = 0 is excluded by neither test: every bone whose band contains its y,
  a left bone and a right bone alike, adds its displacement. In general a bone adds its
  displacement whenever the vertex's y lies in its band and neither test excludes the
  vertex; for a bone with neither marker that is every vertex whose y lies in its band,
  whatever x is. The skinned vertex with x > 0 is the same under two poses that differ
  only in left bones, and the one with x < 0 under two poses that differ only in right
  bones.
\<close>

theorem skinning_side_isolation:
  "(str_includes (bone_name (bone_id bone)) ''left'' \<and> vx > 0 \<longrightarrow>
      skin_bone bp (vx, vy, vz) bone acc = acc) \<and>
   (str_includes (bone_name (bone_id bone)) ''right'' \<and> vx < 0 \<longrightarrow>
      skin_bone bp (vx, vy, vz) bone acc = acc) \<and>
   (\<not> str_includes (bone_name (bone_id bone)) ''left'' \<and>
    \<not> str_includes (bone_name (bone_id bone)) ''right'' \<and>
    fst (influenceY bone) \<le> vy \<and> vy \<le> snd (influenceY bone) \<longrightarrow>
      skin_bone bp (vx, vy, vz) bone (influence, w) =
        (\<lparr>v_x = v_x influence + (v_x (bp (bone_id bone)) - v_x (defaultPos bone)),
          v_y = v_y influence + (v_y (bp (bone_id bone)) - v_y (defaultPos bone)),
          v_z = v_z influence + (v_z (bp (bone_id bone)) - v_z (defaultPos bone))\<rparr>, Suc w)) \<and>
   (vx = 0 \<and> fst (influenceY bone) \<le> vy \<and> vy \<le> snd (influenceY bone) \<longrightarrow>
      skin_bone bp (vx, vy, vz) bone (influence, w) =
        (\<lparr>v_x = v_x influence + (v_x (bp (bone_id bone)) - v_x (defaultPos bone)),
          v_y = v_y influence + (v_y (bp (bone_id bone)) - v_y (defaultPos bone)),
          v_z = v_z influence + (v_z (bp (bone_id bone)) - v_z (defaultPos bone))\<rparr>, Suc w)) \<and>
   (fst (influenceY bone) \<le> vy \<and> vy \<le> snd (influenceY bone) \<and>
    \<not> (str_includes (bone_name (bone_id bone)) ''left'' \<and> vx > 0) \<and>
    \<not> (str_includes (bone_name (bone_id bone)) ''right'' \<and> vx < 0) \<longrightarrow>
      skin_bone bp (vx, vy, vz) bone (influence, w) =
        (\<lparr>v_x = v_x influence + (v_x (bp (bone_id bone)) - v_x (defaultPos bone)),
          v_y = v_y influence + (v_y (bp (bone_id bone)) - v_y (defaultPos bone)),
          v_z = v_z influence + (v_z (bp (bone_id bone)) - v_z (defaultPos bone))\<rparr>, Suc w)) \<and>
   ((\<forall>b. \<not> str_includes (bone_name b) ''left'' \<longrightarrow> bp b = bp' b) \<and> vx > 0 \<longrightarrow>
      getSkinnedVertex bp (vx, vy, vz) = getSkinnedVertex bp' (vx, vy, vz)) \<and>
   ((\<forall>b. \<not> str_includes (bone_name b) ''right'' \<longrightarrow> bp b = bp' b) \<and> vx < 0 \<longrightarrow>
      getSkinnedVertex bp (vx, vy, vz) = getSkinnedVertex bp' (vx, vy, vz))"
proof (intro conjI impI)
  assume "str_includes (bone_name (bone_id bone)) ''left'' \<and> vx > 0"
  then show "skin_bone bp (vx, vy, vz) bone acc = acc"
    by (simp add: skin_bone_wrong_side_left)
next
  assume "str_includes (bone_name (bone_id bone)) ''right'' \<and> vx < 0"
  then show "skin_bone bp (vx, vy, vz) bone acc = acc"
    by (simp add: skin_bone_wrong_side_right)
next
  assume "\<not> str_includes (bone_name (bone_id bone)) ''left'' \<and>
    \<not> str_includes (bone_name (bone_id bone)) ''right'' \<and>
    fst (influenceY bone) \<le> vy \<and> vy \<le> snd (influenceY bone)"
  then show "skin_bone bp (vx, vy, vz) bone (influence, w) =
        (\<lparr>v_x = v_x influence + (v_x (bp (bone_id bone)) - v_x (defaultPos bone)),
          v_y = v_y influence + (v_y (bp (bone_id bone)) - v_y (defaultPos bone)),
          v_z = v_z influence + (v_z (bp (bone_id bone)) - v_z (defaultPos bone))\<rparr>, Suc w)"
    by (simp add: skin_bone_contributes)
next
  assume "vx = 0 \<and> fst (influenceY bone) \<le> vy \<and> vy \<le> snd (influenceY bone)"
  then show "skin_bone bp (vx, vy, vz) bone (influence, w) =
        (\<lparr>v_x = v_x influence + (v_x (bp (bone_id bone)) - v_x (defaultPos bone)),
          v_y = v_y influence + (v_y (bp (bone_id bone)) - v_y (defaultPos bone)),
          v_z = v_z influence + (v_z (bp (bone_id bone)) - v_z (defaultPos bone))\<rparr>, Suc w)"
    by (simp add: skin_bone_contributes)
next
  assume "fst (influenceY bone) \<le> vy \<and> vy \<le> snd (influenceY bone) \<and>
    \<not> (str_includes (bone_name (bone_id bone)) ''left'' \<and> vx > 0) \<and>
    \<not> (str_includes (bone_name (bone_id bone)) ''right'' \<and> vx < 0)"
  then show "skin_bone bp (vx, vy, vz) bone (influence, w) =
        (\<lparr>v_x = v_x influence + (v_x (bp (bone_id bone)) - v_x (defaultPos bone)),
          v_y = v_y influence + (v_y (bp (bone_id bone)) - v_y (defaultPos bone)),
          v_z = v_z influence + (v_z (bp (bone_id bone)) - v_z (defaultPos bone))\<rparr>, Suc w)"
    by (intro skin_bone_contributes) simp_all
next
  assume "(\<forall>b. \<not> str_includes (bone_name b) ''left'' \<longrightarrow> bp b = bp' b) \<and> vx > 0"
  then show "getSkinnedVertex bp (vx, vy, vz) = getSkinnedVertex bp' (vx, vy, vz)"
    by (intro getSkinnedVertex_cong ext) (metis skin_bone_cong_left)
next
  assume "(\<forall>b. \<not> str_includes (bone_name b) ''right'' \<longrightarrow> bp b = bp' b) \<and> vx < 0"
  then show "getSkinnedVertex bp (vx, vy, vz) = getSkinnedVertex bp' (vx, vy, vz)"
    by (intro getSkinnedVertex_cong ext) (metis skin_bone_cong_right)
qed


theorem skinning_side_isolation_witness:
  "skin_bone (defaultBonePositions(Left_arm := vec3 (-0.6) 1.7 0)) (1, 1.3, 0) (BONES ! 2)
     (vec3 0 0 0, 0) = (vec3 0 0 0, 0) \<and>
   skin_bone (defaultBonePositions(Right_arm := vec3 0.6 1.7 0)) (-1, 1.3, 0) (BONES ! 3)
     (vec3 0 0 0, 0) = (vec3 0 0 0, 0) \<and>
   skin_bone (defaultBonePositions(Torso := vec3 0 1.5 0)) (1, 1.3, 0) (BONES ! 1)
     (vec3 0 0 0, 0) = (vec3 0 0.5 0, 1) \<and>
   skin_bone (defaultBonePositions(Left_arm := vec3 (-0.6) 1.7 0)) (0, 1.3, 0) (BONES ! 2)
     (vec3 0 0 0, 0) = (vec3 0 0.4 0, 1) \<and>
   skin_bone (defaultBonePositions(Right_arm := vec3 0.6 1.7 0)) (0, 1.3, 0) (BONES ! 3)
     (vec3 0 0 0, 0) = (vec3 0 0.4 0, 1) \<and>
   skin_bone (defaultBonePositions(Left_arm := vec3 (-0.6) 1.7 0)) (-1, 1.3, 0) (BONES ! 2)
     (vec3 0 0 0, 0) = (vec3 0 0.4 0, 1) \<and>
   getSkinnedVertex (defaultBonePositions(Left_arm := vec3 (-0.6) 1.7 0)) (1, 1.3, 0)
     = getSkinnedVertex defaultBonePositions (1, 1.3, 0) \<and>
   getSkinnedVertex (defaultBonePositions(Right_arm := vec3 0.6 1.7 0)) (-1, 1.3, 0)
     = getSkinnedVertex defaultBonePositions (-1, 1.3, 0)"
proof -
  let ?L = "defaultBonePositions(Left_arm := vec3 (-0.6) 1.7 0)"
  let ?R = "defaultBonePositions(Right_arm := vec3 0.6 1.7 0)"
  let ?T = "defaultBonePositions(Torso := vec3 0 1.5 0)"
  have l: "\<forall>b. \<not> str_includes (bone_name b) ''left'' \<longrightarrow> ?L b = defaultBonePositions b"
    by auto
  have r: "\<forall>b. \<not> str_includes (bone_name b) ''right'' \<longrightarrow> ?R b = defaultBonePositions b"
    by auto
  have 1: "skin_bone ?L (1, 1.3, 0) (BONES ! 2) (vec3 0 0 0, 0) = (vec3 0 0 0, 0)"
    using skinning_side_isolation [of "BONES ! 2" 1 ?L "1.3" 0 "(vec3 0 0 0, 0)"]
    by (simp add: BONES_def)
  have 2: "skin_bone ?R (-1, 1.3, 0) (BONES ! 3) (vec3 0 0 0, 0) = (vec3 0 0 0, 0)"
    using skinning_side_isolation [of "BONES ! 3" "-1" ?R "1.3" 0 "(vec3 0 0 0, 0)"]
    by (simp add: BONES_def)
  have 3: "skin_bone ?T (1, 1.3, 0) (BONES ! 1) (vec3 0 0 0, 0) = (vec3 0 0.5 0, 1)"
    using skinning_side_isolation [of "BONES ! 1" 1 ?T "1.3" 0 _ "vec3 0 0 0" 0]
    by (simp add: BONES_def vec3_def)
  have 6: "skin_bone ?L (0, 1.3, 0) (BONES ! 2) (vec3 0 0 0, 0) = (vec3 0 0.4 0, 1)"
    using skinning_side_isolation [of "BONES ! 2" 0 ?L "1.3" 0 _ "vec3 0 0 0" 0,
        THEN conjunct2, THEN conjunct2, THEN conjunct2, THEN conjunct1]
    by (simp add: BONES_def vec3_def defaultBonePositions_simps)
  have 7: "skin_bone ?R (0, 1.3, 0) (BONES ! 3) (vec3 0 0 0, 0) = (vec3 0 0.4 0, 1)"
    using skinning_side_isolation [of "BONES ! 3" 0 ?R "1.3" 0 _ "vec3 0 0 0" 0,
        THEN conjunct2, THEN conjunct2, THEN conjunct2, THEN conjunct1]
    by (simp add: BONES_def vec3_def defaultBonePositions_simps)
  have 8: "skin_bone ?L (-1, 1.3, 0) (BONES ! 2) (vec3 0 0 0, 0) = (vec3 0 0.4 0, 1)"
    using skinning_side_isolation [of "BONES ! 2" "-1" ?L "1.3" 0 _ "vec3 0 0 0" 0,
        THEN conjunct2, THEN conjunct2, THEN conjunct2, THEN conjunct2, THEN conjunct1]
    by (simp add: BONES_def vec3_def defaultBonePositions_simps)
  have 4: "getSkinnedVertex ?L (1, 1.3, 0) = getSkinnedVertex defaultBonePositions (1, 1.3, 0)"
    using l skinning_side_isolation [of _ 1 ?L "1.3" 0 _ _ 0
        defaultBonePositions]
    by simp
  have 5: "getSkinnedVertex ?R (-1, 1.3, 0) = getSkinnedVertex defaultBonePositions (-1, 1.3, 0)"
    using r skinning_side_isolation [of _ "-1" ?R "1.3" 0 _ _ 0
        defaultBonePositions]
    by simp
  from 1 2 3 4 5 6 7 8 show ?thesis by blast
qed

text \<open>A vertex with x = 0 in the band of the right arm moves with the right arm.\<close>

theorem skinning_right_bone_at_x_zero:
  "str_includes (bone_name (bone_id (BONES ! 3))) ''right'' \<and>
   skin_bone (defaultBonePositions(Right_arm := vec3 0.6 1.7 0)) (0, 1.3, 0) (BONES ! 3)
     (vec3 0 0 0, 0) = (vec3 0 0.4 0, 1) \<and>
   getSkinnedVertex (defaultBonePositions(Right_arm := vec3 0.6 1.7 0)) (0, 1.3, 0)
     = (0, 1.7, 0) \<and>
   getSkinnedVertex defaultBonePositions (0, 1.3, 0) = (0, 1.3, 0)"
  by (simp add: getSkinnedVertex_def skin_bone_def BONES_def vec3_def
      defaultBonePositions_simps)

lemma getSkinnedVertex_default:
  assumes "\<forall>bone \<in> set BONES. bp (bone_id bone) = defaultPos bone"
  shows "getSkinnedVertex bp v = v"
proof -
  obtain vx vy vz where v: "v = (vx, vy, vz)" by (cases v) auto
  obtain inf w where f: "fold (skin_bone bp v) BONES (vec3 0 0 0, 0) = (inf, w)"
    by (cases "fold (skin_bone bp v) BONES (vec3 0 0 0, 0)") auto
  from fold_skin_default [OF assms, of v "(vec3 0 0 0, 0)"] f have "inf = vec3 0 0 0" by simp
  with f v show ?thesis by (simp add: getSkinnedVertex_def vec3_def)
qed

text \<open>
  C6. When every bone's current position is its default position, skinning returns the
  vertex unchanged.
\<close>

theorem skinning_default_pose_noop:
  "\<forall>bone \<in> set BONES. bp (bone_id bone) = defaultPos bone \<Longrightarrow> getSkinnedVertex bp v = v"
  by (rule getSkinnedVertex_default)

theorem skinning_default_pose_noop_witness:
  "getSkinnedVertex defaultBonePositions (-0.5, 1.3, 0.25) = (-0.5, 1.3, 0.25)"
proof -
  have h: "\<forall>bone \<in> set BONES. defaultBonePositions (bone_id bone) = defaultPos bone"
    by (simp add: BONES_def defaultBonePositions_simps)
  show ?thesis using skinning_default_pose_noop [OF h, of "(-0.5, 1.3, 0.25)"] by simp
qed

lemma skin_bone_x_zero:
  "skin_bone bp (0, vy, vz) bone (influence, w) =
     (if in_band vy bone
      then (\<lparr>v_x = v_x influence + v_x (bone_offset bp bone),
             v_y = v_y influence + v_y (bone_offset bp bone),
             v_z = v_z influence + v_z (bone_offset bp bone)\<rparr>, Suc w)
      else (influence, w))"
  by (simp add: skin_bone_def in_band_def bone_offset_def Let_def split: prod.splits)

lemma fold_skin_x_zero:
  "fold (skin_bone bp (0, vy, vz)) bs (influence, w) =
     (\<lparr>v_x = v_x influence + (\<Sum>b\<leftarrow>filter (in_band vy) bs. v_x (bone_offset bp b)),
       v_y = v_y influence + (\<Sum>b\<leftarrow>filter (in_band vy) bs. v_y (bone_offset bp b)),
       v_z = v_z influence + (\<Sum>b\<leftarrow>filter (in_band vy) bs. v_z (bone_offset bp b))\<rparr>,
      w + length (filter (in_band vy) bs))"
  by (induction bs arbitrary: influence w) (simp_all add: skin_bone_x_zero add.assoc)

lemma getSkinnedVertex_x_zero:
  "getSkinnedVertex bp (0, vy, vz) =
     ((\<Sum>b\<leftarrow>filter (in_band vy) BONES. v_x (bone_offset bp b)),
      vy + (\<Sum>b\<leftarrow>filter (in_band vy) BONES. v_y (bone_offset bp b)),
      vz + (\<Sum>b\<leftarrow>filter (in_band vy) BONES. v_z (bone_offset bp b)))"
  by (cases "filter (in_band vy) BONES")
     (simp_all add: getSkinnedVertex_def fold_skin_x_zero vec3_def)

lemma getSkinnedVertex_arms_x_zero:
  assumes "1.1 \<le> vy" "vy \<le> 1.5" "bp Head = defaultBonePositions Head"
    "bp Torso = defaultBonePositions Torso"
  shows "getSkinnedVertex bp (0, vy, vz) =
     ((v_x (bp Left_arm) - (-0.6)) + (v_x (bp Right_arm) - 0.6),
      vy + ((v_y (bp Left_arm) - 1.3) + (v_y (bp Right_arm) - 1.3)),
      vz + ((v_z (bp Left_arm) - 0) + (v_z (bp Right_arm) - 0)))"
  using assms
  by (simp add: getSkinnedVertex_x_zero BONES_def in_band_def bone_offset_def vec3_def
      defaultBonePositions_simps)

text \<open>
  C10. For a vertex with x = 0, every bone whose band contains the vertex's y adds its
  displacement, a left bone and a right bone alike; the skinned vertex is the vertex plus
  the sum of the displacements of all bones whose band contains y. With head and torso at
  rest and y in [1.1, 1.5], that is the sum of the displacements of both arms.
\<close>

theorem skinning_boundary_x_zero:
  "(in_band vy bone \<longrightarrow>
      skin_bone bp (0, vy, vz) bone (influence, w) =
        (\<lparr>v_x = v_x influence + v_x (bone_offset bp bone),
          v_y = v_y influence + v_y (bone_offset bp bone),
          v_z = v_z influence + v_z (bone_offset bp bone)\<rparr>, Suc w)) \<and>
   getSkinnedVertex bp (0, vy, vz) =
     ((\<Sum>b\<leftarrow>filter (in_band vy) BONES. v_x (bone_offset bp b)),
      vy + (\<Sum>b\<leftarrow>filter (in_band vy) BONES. v_y (bone_offset bp b)),
      vz + (\<Sum>b\<leftarrow>filter (in_band vy) BONES. v_z (bone_offset bp b))) \<and>
   (1.1 \<le> vy \<and> vy \<le> 1.5 \<and> bp Head = defaultBonePositions Head
      \<and> bp Torso = defaultBonePositions Torso \<longrightarrow>
      getSkinnedVertex bp (0, vy, vz) =
        ((v_x (bp Left_arm) - (-0.6)) + (v_x (bp Right_arm) - 0.6),
         vy + ((v_y (bp Left_arm) - 1.3) + (v_y (bp Right_arm) - 1.3)),
         vz + ((v_z (bp Left_arm) - 0) + (v_z (bp Right_arm) - 0))))"
proof (intro conjI impI)
  assume "in_band vy bone"
  then show "skin_bone bp (0, vy, vz) bone (influence, w) =
        (\<lparr>v_x = v_x influence + v_x (bone_offset bp bone),
          v_y = v_y influence + v_y (bone_offset bp bone),
          v_z = v_z influence + v_z (bone_offset bp bone)\<rparr>, Suc w)"
    by (simp add: skin_bone_x_zero)
next
  show "getSkinnedVertex bp (0, vy, vz) =
     ((\<Sum>b\<leftarrow>filter (in_band vy) BONES. v_x (bone_offset bp b)),
      vy + (\<Sum>b\<leftarrow>filter (in_band vy) BONES. v_y (bone_offset bp b)),
      vz + (\<Sum>b\<leftarrow>filter (in_band vy) BONES. v_z (bone_offset bp b)))"
    by (rule getSkinnedVertex_x_zero)
next
  assume "1.1 \<le> vy \<and> vy \<le> 1.5 \<and> bp Head = defaultBonePositions Head
      \<and> bp Torso = defaultBonePositions Torso"
  then show "getSkinnedVertex bp (0, vy, vz) =
        ((v_x (bp Left_arm) - (-0.6)) + (v_x (bp Right_arm) - 0.6),
         vy + ((v_y (bp Left_arm) - 1.3) + (v_y (bp Right_arm) - 1.3)),
         vz + ((v_z (bp Left_arm) - 0) + (v_z (bp Right_arm) - 0)))"
    by (intro getSkinnedVertex_arms_x_zero) simp_all
qed

theorem skinning_boundary_x_zero_witness:
  "in_band 1.3 (BONES ! 2) \<and> in_band 1.3 (BONES ! 3) \<and>
   skin_bone (defaultBonePositions(Left_arm := vec3 (-0.6) 1.7 0, Right_arm := vec3 0.9 1.3 0))
     (0, 1.3, 0) (BONES ! 2) (vec3 0 0 0, 0) = (vec3 0 0.4 0, 1) \<and>
   skin_bone (defaultBonePositions(Left_arm := vec3 (-0.6) 1.7 0, Right_arm := vec3 0.9 1.3 0))
     (0, 1.3, 0) (BONES ! 3) (vec3 0 0.4 0, 1) = (vec3 0.3 0.4 0, 2) \<and>
   getSkinnedVertex
     (defaultBonePositions(Left_arm := vec3 (-0.6) 1.7 0, Right_arm := vec3 0.9 1.3 0))
     (0, 1.3, 0) = (0.3, 1.7, 0)"
proof -
  let ?bp = "defaultBonePositions(Left_arm := vec3 (-0.6) 1.7 0, Right_arm := vec3 0.9 1.3 0)"
  have b: "in_band 1.3 (BONES ! 2)" "in_band 1.3 (BONES ! 3)"
    by (simp_all add: in_band_def BONES_def)
  have 1: "skin_bone ?bp (0, 1.3, 0) (BONES ! 2) (vec3 0 0 0, 0) = (vec3 0 0.4 0, 1)"
    using b skinning_boundary_x_zero [of "1.3" "BONES ! 2" ?bp 0 "vec3 0 0 0" 0]
    by (simp add: bone_offset_def BONES_def vec3_def)
  have 2: "skin_bone ?bp (0, 1.3, 0) (BONES ! 3) (vec3 0 0.4 0, 1) = (vec3 0.3 0.4 0, 2)"
    using b skinning_boundary_x_zero [of "1.3" "BONES ! 3" ?bp 0 "vec3 0 0.4 0" 1]
    by (simp add: bone_offset_def BONES_def vec3_def)
  have 3: "getSkinnedVertex ?bp (0, 1.3, 0) = (0.3, 1.7, 0)"
    using skinning_boundary_x_zero [of "1.3" _ ?bp 0 _ 0,
        THEN conjunct2, THEN conjunct2]
    by (simp add: defaultBonePositions_simps vec3_def)
  from b 1 2 3 show ?thesis by blast
qed

section \<open>Renderer\<close>

lemma mset_insert_cmp: "mset (insert_cmp cmp a bs) = add_mset a (mset bs)"
  by (induction bs) simp_all

lemma mset_sort_cmp: "mset (sort_cmp cmp xs) = mset xs"
  unfolding sort_cmp_def by (induction xs) (simp_all add: mset_insert_cmp)

lemma set_insert_cmp: "set (insert_cmp cmp a bs) = insert a (set bs)"
  by (induction bs) auto


lemma sorted_insert_depth:
  "sorted_wrt (\<lambda>a b. depth a \<ge> depth b) bs \<Longrightarrow> sorted_wrt (\<lambda>a b. depth a \<ge> depth b) (insert_cmp depth_cmp a bs)"
  by (induction bs) (auto simp add: set_insert_cmp depth_cmp_def)

lemma sorted_sort_depth: "sorted_wrt (\<lambda>a b. depth a \<ge> depth b) (sort_cmp depth_cmp xs)"
  unfolding sort_cmp_def by (induction xs) (simp_all add: sorted_insert_depth)

lemma sort_three: "depth a = 5 \<Longrightarrow> depth b = 1 \<Longrightarrow> depth c = 3 \<Longrightarrow>
  sort_cmp depth_cmp [a, b, c] = [a, c, b]"
  by (simp add: sort_cmp_def depth_cmp_def)

lemma sort_tie: "depth a = depth b \<Longrightarrow> sort_cmp depth_cmp [a, b] = [a, b]"
  by (simp add: sort_cmp_def depth_cmp_def)


lemma faceToRender_valid:
  assumes "f_a face < length (vertices m)" "f_b face < length (vertices m)"
    "f_c face < length (vertices m)"
  shows "faceToRender (rotation st) (cameraZoom st)
           (map (getSkinnedVertex (bonePositions st)) (vertices m)) face
         = Inr (face_polygon st m face)"
  using assms by (simp add: faceToRender_def face_polygon_def Let_def split: prod.splits)

lemma faceToRender_invalid:
  assumes "\<not> (f_a face < length (vertices m) \<and> f_b face < length (vertices m) \<and>
    f_c face < length (vertices m))"
  shows "faceToRender (rotation st) (cameraZoom st)
           (map (getSkinnedVertex (bonePositions st)) (vertices m)) face = Inl TypeError"
  using assms by (auto simp add: faceToRender_def)

lemma map_faces_all_Inr:
  "\<forall>face \<in> set fsrc. g face = Inr (h face) \<Longrightarrow> map_faces g fsrc = Inr (map h fsrc)"
  by (induction fsrc) simp_all

lemma map_faces_Inl:
  "face \<in> set fsrc \<Longrightarrow> g face = Inl e \<Longrightarrow> \<exists>e'. map_faces g fsrc = Inl e'"
  by (induction fsrc) (auto split: sum.splits)

lemma RenderedMesh_valid:
  assumes "mesh st = Some m" "valid_faces m"
  shows "RenderedMesh st = Inr (sort_cmp depth_cmp (map (face_polygon st m) (faces m)))"
proof -
  let ?g = "faceToRender (rotation st) (cameraZoom st)
              (map (getSkinnedVertex (bonePositions st)) (vertices m))"
  from assms(2) have "\<forall>face \<in> set (faces m). ?g face = Inr (face_polygon st m face)"
    by (simp add: valid_faces_def faceToRender_valid)
  then have "map_faces ?g (faces m) = Inr (map (face_polygon st m) (faces m))"
    by (rule map_faces_all_Inr)
  with assms(1) show ?thesis by (simp add: RenderedMesh_def facesToRender_def)
qed

lemma RenderedMesh_invalid:
  assumes "mesh st = Some m" "\<not> valid_faces m"
  shows "\<exists>e. RenderedMesh st = Inl e"
proof -
  let ?g = "faceToRender (rotation st) (cameraZoom st)
              (map (getSkinnedVertex (bonePositions st)) (vertices m))"
  from assms(2) obtain face where f: "face \<in> set (faces m)"
    and "\<not> (f_a face < length (vertices m) \<and> f_b face < length (vertices m) \<and>
      f_c face < length (vertices m))"
    by (auto simp add: valid_faces_def)
  then have "?g face = Inl TypeError" by (intro faceToRender_invalid)
  with f obtain e where "map_faces ?g (faces m) = Inl e" using map_faces_Inl by blast
  with assms(1) show ?thesis by (simp add: RenderedMesh_def facesToRender_def)
qed


text \<open>
  C7. The depth of the polygon drawn for a face is the arithmetic mean of its three
  projected vertex depths. When a mesh is loaded and every face index lies inside the
  vertex list, the renderer returns a draw list that holds the polygon of every face of
  the mesh, each as often as the mesh lists it, in descending order of depth; it returns a
  draw list in no other case. A mesh of three faces with the depths 5, 1 and 3 is drawn in
  the order 5, 3, 1, and two faces of equal depth are drawn without failure, in the order
  the mesh lists them.
\<close>

theorem render_depth_sorted:
  "(depth (face_polygon st m face) =
      (p_depth (points (face_polygon st m face) ! 0)
       + p_depth (points (face_polygon st m face) ! 1)
       + p_depth (points (face_polygon st m face) ! 2)) / 3) \<and>
   (mesh st = Some m \<and> valid_faces m \<longrightarrow>
      (\<exists>fs. RenderedMesh st = Inr fs \<and>
         mset fs = mset (map (face_polygon st m) (faces m)) \<and>
         sorted_wrt (\<lambda>a b. depth a \<ge> depth b) fs)) \<and>
   (mesh st = Some m \<and> RenderedMesh st = Inr fs \<longrightarrow>
      valid_faces m \<and> mset fs = mset (map (face_polygon st m) (faces m)) \<and>
      sorted_wrt (\<lambda>a b. depth a \<ge> depth b) fs) \<and>
   (mesh st = Some m \<and> valid_faces m \<and> faces m = [fa, fb, fc] \<and>
    depth (face_polygon st m fa) = 5 \<and> depth (face_polygon st m fb) = 1 \<and>
    depth (face_polygon st m fc) = 3 \<longrightarrow>
      RenderedMesh st =
        Inr [face_polygon st m fa, face_polygon st m fc, face_polygon st m fb]) \<and>
   (mesh st = Some m \<and> valid_faces m \<and> faces m = [fa, fb] \<and>
    depth (face_polygon st m fa) = depth (face_polygon st m fb) \<longrightarrow>
      RenderedMesh st = Inr [face_polygon st m fa, face_polygon st m fb])"
proof (intro conjI)
  show "depth (face_polygon st m face) =
      (p_depth (points (face_polygon st m face) ! 0)
       + p_depth (points (face_polygon st m face) ! 1)
       + p_depth (points (face_polygon st m face) ! 2)) / 3"
    by (simp add: face_polygon_def Let_def)
  show "mesh st = Some m \<and> valid_faces m \<longrightarrow>
      (\<exists>fs. RenderedMesh st = Inr fs \<and>
         mset fs = mset (map (face_polygon st m) (faces m)) \<and>
         sorted_wrt (\<lambda>a b. depth a \<ge> depth b) fs)"
    by (auto simp add: RenderedMesh_valid mset_sort_cmp sorted_sort_depth simp del: mset_map)
  show "mesh st = Some m \<and> RenderedMesh st = Inr fs \<longrightarrow>
      valid_faces m \<and> mset fs = mset (map (face_polygon st m) (faces m)) \<and>
      sorted_wrt (\<lambda>a b. depth a \<ge> depth b) fs"
  proof
    assume a: "mesh st = Some m \<and> RenderedMesh st = Inr fs"
    then have v: "valid_faces m" using RenderedMesh_invalid [of st m] by auto
    with a have "fs = sort_cmp depth_cmp (map (face_polygon st m) (faces m))"
      using RenderedMesh_valid [of st m] by auto
    with v show "valid_faces m \<and> mset fs = mset (map (face_polygon st m) (faces m)) \<and>
      sorted_wrt (\<lambda>a b. depth a \<ge> depth b) fs"
      by (simp add: mset_sort_cmp sorted_sort_depth del: mset_map)
  qed
  show "mesh st = Some m \<and> valid_faces m \<and> faces m = [fa, fb, fc] \<and>
    depth (face_polygon st m fa) = 5 \<and> depth (face_polygon st m fb) = 1 \<and>
    depth (face_polygon st m fc) = 3 \<longrightarrow>
      RenderedMesh st =
        Inr [face_polygon st m fa, face_polygon st m fc, face_polygon st m fb]"
    by (simp add: RenderedMesh_valid sort_three)
  show "mesh st = Some m \<and> valid_faces m \<and> faces m = [fa, fb] \<and>
    depth (face_polygon st m fa) = depth (face_polygon st m fb) \<longrightarrow>
      RenderedMesh st = Inr [face_polygon st m fa, face_polygon st m fb]"
    by (simp add: RenderedMesh_valid sort_tie)
qed


lemma mesh0_polygons:
  "face_polygon (initialAnimator\<lparr>mesh := Some mesh0, rotation := \<lparr>rot_x = 0, rot_y = 0\<rparr>\<rparr>) mesh0 
       \<lparr>f_a = 0, f_b = 0, f_c = 0, f_color = None\<rparr> =
     \<lparr>points = [\<lparr>p_x = 400, p_y = 300, p_depth = 5, p_scale = 40\<rparr>,
                  \<lparr>p_x = 400, p_y = 300, p_depth = 5, p_scale = 40\<rparr>,
                  \<lparr>p_x = 400, p_y = 300, p_depth = 5, p_scale = 40\<rparr>],
       color = ''#cccccc'', depth = 5\<rparr>"
  "face_polygon (initialAnimator\<lparr>mesh := Some mesh0, rotation := \<lparr>rot_x = 0, rot_y = 0\<rparr>\<rparr>) mesh0 
       \<lparr>f_a = 1, f_b = 1, f_c = 1, f_color = Some ''#ff0000''\<rparr> =
     \<lparr>points = [\<lparr>p_x = 400, p_y = 300, p_depth = 1, p_scale = 400 / 6\<rparr>,
                  \<lparr>p_x = 400, p_y = 300, p_depth = 1, p_scale = 400 / 6\<rparr>,
                  \<lparr>p_x = 400, p_y = 300, p_depth = 1, p_scale = 400 / 6\<rparr>],
       color = ''#ff0000'', depth = 1\<rparr>"
  "face_polygon (initialAnimator\<lparr>mesh := Some mesh0, rotation := \<lparr>rot_x = 0, rot_y = 0\<rparr>\<rparr>) mesh0 
       \<lparr>f_a = 2, f_b = 2, f_c = 2, f_color = None\<rparr> =
     \<lparr>points = [\<lparr>p_x = 400, p_y = 300, p_depth = 3, p_scale = 50\<rparr>,
                  \<lparr>p_x = 400, p_y = 300, p_depth = 3, p_scale = 50\<rparr>,
                  \<lparr>p_x = 400, p_y = 300, p_depth = 3, p_scale = 50\<rparr>],
       color = ''#cccccc'', depth = 3\<rparr>"
proof -
  have d: "getSkinnedVertex defaultBonePositions v = v" for v
    by (rule getSkinnedVertex_default) (rule default_on_BONES)
  show "face_polygon (initialAnimator\<lparr>mesh := Some mesh0, rotation := \<lparr>rot_x = 0, rot_y = 0\<rparr>\<rparr>) mesh0 
       \<lparr>f_a = 0, f_b = 0, f_c = 0, f_color = None\<rparr> =
     \<lparr>points = [\<lparr>p_x = 400, p_y = 300, p_depth = 5, p_scale = 40\<rparr>,
                  \<lparr>p_x = 400, p_y = 300, p_depth = 5, p_scale = 40\<rparr>,
                  \<lparr>p_x = 400, p_y = 300, p_depth = 5, p_scale = 40\<rparr>],
       color = ''#cccccc'', depth = 5\<rparr>"
    by (simp add: face_polygon_def mesh0_def initialAnimator_def d project_def Let_def)
  show "face_polygon (initialAnimator\<lparr>mesh := Some mesh0, rotation := \<lparr>rot_x = 0, rot_y = 0\<rparr>\<rparr>) mesh0 
       \<lparr>f_a = 1, f_b = 1, f_c = 1, f_color = Some ''#ff0000''\<rparr> =
     \<lparr>points = [\<lparr>p_x = 400, p_y = 300, p_depth = 1, p_scale = 400 / 6\<rparr>,
                  \<lparr>p_x = 400, p_y = 300, p_depth = 1, p_scale = 400 / 6\<rparr>,
                  \<lparr>p_x = 400, p_y = 300, p_depth = 1, p_scale = 400 / 6\<rparr>],
       color = ''#ff0000'', depth = 1\<rparr>"
    by (simp add: face_polygon_def mesh0_def initialAnimator_def d project_def Let_def)
  show "face_polygon (initialAnimator\<lparr>mesh := Some mesh0, rotation := \<lparr>rot_x = 0, rot_y = 0\<rparr>\<rparr>) mesh0 
       \<lparr>f_a = 2, f_b = 2, f_c = 2, f_color = None\<rparr> =
     \<lparr>points = [\<lparr>p_x = 400, p_y = 300, p_depth = 3, p_scale = 50\<rparr>,
                  \<lparr>p_x = 400, p_y = 300, p_depth = 3, p_scale = 50\<rparr>,
                  \<lparr>p_x = 400, p_y = 300, p_depth = 3, p_scale = 50\<rparr>],
       color = ''#cccccc'', depth = 3\<rparr>"
    by (simp add: face_polygon_def mesh0_def initialAnimator_def d project_def Let_def)
qed

theorem render_depth_sorted_witness:
  "RenderedMesh (initialAnimator\<lparr>mesh := Some mesh0, rotation := \<lparr>rot_x = 0, rot_y = 0\<rparr>\<rparr>)
     = Inr [\<lparr>points = [\<lparr>p_x = 400, p_y = 300, p_depth = 5, p_scale = 40\<rparr>,
                  \<lparr>p_x = 400, p_y = 300, p_depth = 5, p_scale = 40\<rparr>,
                  \<lparr>p_x = 400, p_y = 300, p_depth = 5, p_scale = 40\<rparr>],
       color = ''#cccccc'', depth = 5\<rparr>,
            \<lparr>points = [\<lparr>p_x = 400, p_y = 300, p_depth = 3, p_scale = 50\<rparr>,
                  \<lparr>p_x = 400, p_y = 300, p_depth = 3, p_scale = 50\<rparr>,
                  \<lparr>p_x = 400, p_y = 300, p_depth = 3, p_scale = 50\<rparr>],
       color = ''#cccccc'', depth = 3\<rparr>,
            \<lparr>points = [\<lparr>p_x = 400, p_y = 300, p_depth = 1, p_scale = 400 / 6\<rparr>,
                  \<lparr>p_x = 400, p_y = 300, p_depth = 1, p_scale = 400 / 6\<rparr>,
                  \<lparr>p_x = 400, p_y = 300, p_depth = 1, p_scale = 400 / 6\<rparr>],
       color = ''#ff0000'', depth = 1\<rparr>] \<and>
   (\<exists>fs. RenderedMesh (initialAnimator\<lparr>mesh := Some mesh0\<rparr>) = Inr fs \<and>
      mset fs = mset (map (face_polygon (initialAnimator\<lparr>mesh := Some mesh0\<rparr>) mesh0)
                        (faces mesh0)) \<and>
      sorted_wrt (\<lambda>a b. depth a \<ge> depth b) fs) \<and>
   map color (projr (RenderedMesh (initialAnimator\<lparr>mesh := Some mesh_tie\<rparr>)))
     = [''#ff0000'', ''#0000ff'']"
proof -
  let ?st = "initialAnimator\<lparr>mesh := Some mesh0, rotation := \<lparr>rot_x = 0, rot_y = 0\<rparr>\<rparr>"
  let ?st1 = "initialAnimator\<lparr>mesh := Some mesh0\<rparr>"
  let ?st2 = "initialAnimator\<lparr>mesh := Some mesh_tie\<rparr>"
  let ?fa = "\<lparr>f_a = 0, f_b = 0, f_c = 0, f_color = None\<rparr>"
  let ?fb = "\<lparr>f_a = 1, f_b = 1, f_c = 1, f_color = Some ''#ff0000''\<rparr>"
  let ?fc = "\<lparr>f_a = 2, f_b = 2, f_c = 2, f_color = None\<rparr>"
  let ?red = "\<lparr>f_a = 0, f_b = 1, f_c = 2, f_color = Some ''#ff0000''\<rparr>"
  let ?blue = "\<lparr>f_a = 0, f_b = 1, f_c = 2, f_color = Some ''#0000ff''\<rparr>"
  have v: "valid_faces mesh0" by (simp add: valid_faces_def mesh0_def)
  have v2: "valid_faces mesh_tie" by (simp add: valid_faces_def mesh_tie_def)
  have f: "faces mesh0 = [?fa, ?fb, ?fc]" by (simp add: mesh0_def)
  have f2: "faces mesh_tie = [?red, ?blue]" by (simp add: mesh_tie_def)
  have m: "mesh ?st = Some mesh0" by simp
  have d5: "depth (face_polygon ?st mesh0 ?fa) = 5" by (simp only: mesh0_polygons) simp
  have d1: "depth (face_polygon ?st mesh0 ?fb) = 1" by (simp only: mesh0_polygons) simp
  have d3: "depth (face_polygon ?st mesh0 ?fc) = 3" by (simp only: mesh0_polygons) simp
  from m v f d5 d1 d3
  have pre: "mesh ?st = Some mesh0 \<and> valid_faces mesh0 \<and> faces mesh0 = [?fa, ?fb, ?fc] \<and>
      depth (face_polygon ?st mesh0 ?fa) = 5 \<and> depth (face_polygon ?st mesh0 ?fb) = 1 \<and>
      depth (face_polygon ?st mesh0 ?fc) = 3"
    by blast
  note 1 = render_depth_sorted [of ?st mesh0 _ _ ?fa ?fb ?fc,
      THEN conjunct2, THEN conjunct2, THEN conjunct2, THEN conjunct1, THEN mp, OF pre,
      unfolded mesh0_polygons]
  have m1: "mesh ?st1 = Some mesh0 \<and> valid_faces mesh0" using v by simp
  note 2 = render_depth_sorted [of ?st1 mesh0, THEN conjunct2, THEN conjunct1, THEN mp, OF m1]
  have eqd: "depth (face_polygon ?st2 mesh_tie ?red) = depth (face_polygon ?st2 mesh_tie ?blue)"
    by (simp add: face_polygon_def Let_def)
  have "mesh ?st2 = Some mesh_tie" by simp
  with v2 f2 eqd
  have pre2: "mesh ?st2 = Some mesh_tie \<and> valid_faces mesh_tie \<and>
      faces mesh_tie = [?red, ?blue] \<and>
      depth (face_polygon ?st2 mesh_tie ?red) = depth (face_polygon ?st2 mesh_tie ?blue)"
    by blast
  from render_depth_sorted [of ?st2 mesh_tie _ _ ?red ?blue,
      THEN conjunct2, THEN conjunct2, THEN conjunct2, THEN conjunct2, THEN mp, OF pre2]
  have 3: "map color (projr (RenderedMesh ?st2)) = [''#ff0000'', ''#0000ff'']"
    by (simp add: face_polygon_def Let_def)
  from 1 2 3 show ?thesis by blast
qed

section \<open>Pose and view presets\<close>

lemma bones_cover: "\<exists>bone \<in> set BONES. bone_id bone = b"
  by (cases b) (simp_all add: BONES_def)

lemma handlePoseSelect_positions:
  "bonePositions (handlePoseSelect st pose) = defaultBonePositions"
  by (simp add: handlePoseSelect_def defaultBonePositions_def)


text \<open>
  C8. Selecting a pose preset sets every bone's current position to the default position
  of that bone; the resulting bone positions are the same for every pose (and the same as
  when the component mounts).
\<close>

theorem pose_select_resets_bones:
  "(\<forall>bone \<in> set BONES.
      bonePositions (handlePoseSelect st pose) (bone_id bone) = defaultPos bone) \<and>
   (\<forall>b. \<exists>bone \<in> set BONES. bone_id bone = b) \<and>
   bonePositions (handlePoseSelect st pose) = bonePositions (handlePoseSelect st' pose') \<and>
   bonePositions (handlePoseSelect st pose) = bonePositions initialAnimator"
  by (simp add: handlePoseSelect_positions default_on_BONES bones_cover initialAnimator_def)

theorem pose_select_resets_bones_witness:
  "bonePositions (handlePoseSelect
      (initialAnimator\<lparr>bonePositions := defaultBonePositions(Left_arm := vec3 (-0.6) 1.7 0)\<rparr>)
      Walking) Left_arm = vec3 (-0.6) 1.3 0"
proof -
  let ?s = "initialAnimator\<lparr>bonePositions := defaultBonePositions(Left_arm := vec3 (-0.6) 1.7 0)\<rparr>"
  have m: "BONES ! 2 \<in> set BONES" by (simp add: BONES_def)
  from pose_select_resets_bones [of ?s Walking, THEN conjunct1, rule_format, OF m]
  show ?thesis by (simp add: BONES_def)
qed


text \<open>
  C9. Selecting a view preset sets the camera rotation to the pair declared for it (pitch 0
  and yaw 90 for the side view) and leaves every bone position as it was.
\<close>

theorem view_select_sets_rotation:
  "(\<forall>viewConfig \<in> set VIEWS.
      rotation (handleViewSelect st (view_id viewConfig)) = rot viewConfig) \<and>
   (\<forall>view. \<exists>viewConfig \<in> set VIEWS. view_id viewConfig = view) \<and>
   rotation (handleViewSelect st Side) = \<lparr>rot_x = 0, rot_y = 90\<rparr> \<and>
   bonePositions (handleViewSelect st view) = bonePositions st"
proof (intro conjI allI)
  show "\<forall>viewConfig \<in> set VIEWS.
      rotation (handleViewSelect st (view_id viewConfig)) = rot viewConfig"
    by (simp add: VIEWS_def handleViewSelect_def)
  show "\<exists>viewConfig \<in> set VIEWS. view_id viewConfig = view" for view
    by (cases view) (simp_all add: VIEWS_def)
  show "rotation (handleViewSelect st Side) = \<lparr>rot_x = 0, rot_y = 90\<rparr>"
    by (simp add: VIEWS_def handleViewSelect_def)
  show "bonePositions (handleViewSelect st view) = bonePositions st"
    by (simp add: handleViewSelect_def split: option.splits)
qed

theorem view_select_sets_rotation_witness:
  "rotation (handleViewSelect initialAnimator Top) = \<lparr>rot_x = 90, rot_y = 0\<rparr>"
proof -
  have m: "VIEWS ! 4 \<in> set VIEWS" by (simp add: VIEWS_def)
  from view_select_sets_rotation [of initialAnimator _, THEN conjunct1, rule_format, OF m]
  show ?thesis by (simp add: VIEWS_def)
qed

section \<open>Camera orbit\<close>

lemma dispatch_orbit_ready:
  "pointer_event ev \<Longrightarrow> orbit_ready st \<Longrightarrow> orbit_ready (dispatch st ev)"
  by (cases ev)
     (auto simp add: orbit_ready_def handleMouseDown_def handleMouseMove_def handleMouseUp_def
        handleWheel_def Let_def)

lemma dispatch_yaw:
  "pointer_event ev \<Longrightarrow> orbit_ready st \<Longrightarrow>
   rot_y (rotation (dispatch st ev)) + sum_list (yaw_deltas (dispatch st ev) evs)
     = rot_y (rotation st) + sum_list (yaw_deltas st (ev # evs))"
  by (cases ev)
     (auto simp add: orbit_ready_def handleMouseDown_def handleMouseMove_def handleMouseUp_def
        handleWheel_def Let_def)

lemma orbit_run:
  "\<forall>ev \<in> set evs. pointer_event ev \<Longrightarrow> orbit_ready st \<Longrightarrow>
   orbit_ready (foldl dispatch st evs) \<and>
   rot_y (rotation (foldl dispatch st evs)) = rot_y (rotation st) + sum_list (yaw_deltas st evs)"
proof (induction evs arbitrary: st)
  case Nil
  then show ?case by simp
next
  case (Cons ev evs)
  from Cons.prems have pe: "pointer_event ev" and rest: "\<forall>ev \<in> set evs. pointer_event ev"
    by simp_all
  from pe Cons.prems(2) have r: "orbit_ready (dispatch st ev)" by (rule dispatch_orbit_ready)
  from Cons.IH [OF rest r] dispatch_yaw [OF pe Cons.prems(2), of evs]
  show ?case by simp
qed

lemma orbit_step:
  "isDragging st \<Longrightarrow> activeGizmoAxis st = None \<Longrightarrow>
   rotation (handleMouseMove st e) =
     \<lparr>rot_x = max (-90) (min 90 (rot_x (rotation st) + (clientY e - snd (lastMouse st)) * 0.5)),
      rot_y = rot_y (rotation st) + (clientX e - fst (lastMouse st)) * 0.5\<rparr>"
  by (simp add: handleMouseMove_def Let_def)


text \<open>
  C4, amended. A move handled while the camera is dragged adds the pointer's vertical travel
  times 0.5 to the pitch and clamps it to [-90, 90], and adds the horizontal travel times
  0.5 to the yaw without a clamp. After any run of pointer events from the initial state
  of either Animator the pitch lies in [-90, 90] and the yaw is the initial yaw 45 plus the
  sum of the yaw increments applied.
\<close>

theorem orbit_pitch_clamped_yaw_sum:
  "(isDragging st \<and> activeGizmoAxis st = None \<longrightarrow>
      rotation (handleMouseMove st e) =
        \<lparr>rot_x = max (-90) (min 90
                  (rot_x (rotation st) + (clientY e - snd (lastMouse st)) * 0.5)),
         rot_y = rot_y (rotation st) + (clientX e - fst (lastMouse st)) * 0.5\<rparr>) \<and>
   ((s0 = initialAnimator \<or> s0 = initialAnimatorBasic) \<and>
    (\<forall>ev \<in> set evs. pointer_event ev) \<longrightarrow>
      - 90 \<le> rot_x (rotation (foldl dispatch s0 evs)) \<and>
      rot_x (rotation (foldl dispatch s0 evs)) \<le> 90 \<and>
      rot_y (rotation (foldl dispatch s0 evs)) = 45 + sum_list (yaw_deltas s0 evs))"
proof (rule conjI; rule impI)
  assume "isDragging st \<and> activeGizmoAxis st = None"
  then show "rotation (handleMouseMove st e) =
        \<lparr>rot_x = max (-90) (min 90
                  (rot_x (rotation st) + (clientY e - snd (lastMouse st)) * 0.5)),
         rot_y = rot_y (rotation st) + (clientX e - fst (lastMouse st)) * 0.5\<rparr>"
    by (simp add: orbit_step)
next
  assume a: "(s0 = initialAnimator \<or> s0 = initialAnimatorBasic) \<and>
    (\<forall>ev \<in> set evs. pointer_event ev)"
  then have r: "orbit_ready s0" and y: "rot_y (rotation s0) = 45"
    by (auto simp add: orbit_ready_def initialAnimator_def initialAnimatorBasic_def)
  from a have "\<forall>ev \<in> set evs. pointer_event ev" by simp
  from orbit_run [OF this r] y
  show "- 90 \<le> rot_x (rotation (foldl dispatch s0 evs)) \<and>
      rot_x (rotation (foldl dispatch s0 evs)) \<le> 90 \<and>
      rot_y (rotation (foldl dispatch s0 evs)) = 45 + sum_list (yaw_deltas s0 evs)"
    by (simp add: orbit_ready_def)
qed

theorem orbit_pitch_clamped_yaw_sum_witness:
  "rotation (handleMouseMove
      (initialAnimator\<lparr>isDragging := True, lastMouse := (10, 10)\<rparr>)
      \<lparr>clientX = 30, clientY = 400\<rparr>) = \<lparr>rot_x = 90, rot_y = 55\<rparr> \<and>
   - 90 \<le> rot_x (rotation (foldl dispatch initialAnimatorBasic
      [MouseDown \<lparr>clientX = 0, clientY = 0\<rparr>, MouseMove \<lparr>clientX = 20, clientY = -400\<rparr>,
       Wheel 100, MouseUp, MouseMove \<lparr>clientX = 90, clientY = 0\<rparr>])) \<and>
   rot_x (rotation (foldl dispatch initialAnimatorBasic
      [MouseDown \<lparr>clientX = 0, clientY = 0\<rparr>, MouseMove \<lparr>clientX = 20, clientY = -400\<rparr>,
       Wheel 100, MouseUp, MouseMove \<lparr>clientX = 90, clientY = 0\<rparr>])) \<le> 90 \<and>
   rot_y (rotation (foldl dispatch initialAnimatorBasic
      [MouseDown \<lparr>clientX = 0, clientY = 0\<rparr>, MouseMove \<lparr>clientX = 20, clientY = -400\<rparr>,
       Wheel 100, MouseUp, MouseMove \<lparr>clientX = 90, clientY = 0\<rparr>])) = 55"
proof -
  let ?s = "initialAnimator\<lparr>isDragging := True, lastMouse := (10, 10)\<rparr>"
  let ?evs = "[MouseDown \<lparr>clientX = 0, clientY = 0\<rparr>,
       MouseMove \<lparr>clientX = 20, clientY = -400\<rparr>,
       Wheel 100, MouseUp, MouseMove \<lparr>clientX = 90, clientY = 0\<rparr>]"
  have d: "yaw_deltas initialAnimatorBasic ?evs = [10]"
    by (simp add: initialAnimatorBasic_def initialAnimator_def handleMouseDown_def
        handleMouseMove_def handleMouseUp_def handleWheel_def Let_def)
  have 1: "rotation (handleMouseMove ?s \<lparr>clientX = 30, clientY = 400\<rparr>)
      = \<lparr>rot_x = 90, rot_y = 55\<rparr>"
    using orbit_pitch_clamped_yaw_sum [of ?s "\<lparr>clientX = 30, clientY = 400\<rparr>",
        THEN conjunct1]
    by (simp add: initialAnimator_def)
  have 2: "- 90 \<le> rot_x (rotation (foldl dispatch initialAnimatorBasic ?evs)) \<and>
      rot_x (rotation (foldl dispatch initialAnimatorBasic ?evs)) \<le> 90 \<and>
      rot_y (rotation (foldl dispatch initialAnimatorBasic ?evs)) = 55"
    using orbit_pitch_clamped_yaw_sum [of _ _ initialAnimatorBasic ?evs,
        THEN conjunct2]
    by (simp only: d) simp
  from 1 2 show ?thesis by blast
qed

text \<open>From the initial state, one move of 20 pixels to the right while the camera is dragged
  leaves the yaw at 55; the yaw increments applied add up to 10.\<close>

theorem orbit_yaw_keeps_initial_offset:
  "rot_y (rotation (foldl dispatch initialAnimator
     [MouseDown \<lparr>clientX = 0, clientY = 0\<rparr>, MouseMove \<lparr>clientX = 20, clientY = 0\<rparr>])) = 55 \<and>
   sum_list (yaw_deltas initialAnimator
     [MouseDown \<lparr>clientX = 0, clientY = 0\<rparr>, MouseMove \<lparr>clientX = 20, clientY = 0\<rparr>]) = 10 \<and>
   rot_y (rotation (foldl dispatch initialAnimator [])) = 45 \<and>
   sum_list (yaw_deltas initialAnimator []) = 0"
  by (simp add: initialAnimator_def handleMouseDown_def handleMouseMove_def Let_def)

section \<open>Gizmo drag\<close>

lemma gizmoMovement_zero_len:
  "gizmoScreenVec st bone axis = (0, 0) \<Longrightarrow> gizmoMovement st e axis bone g = 0"
  by (simp add: gizmoMovement_def)

lemma handleMouseMove_gizmo:
  "activeGizmoAxis st = Some axis \<Longrightarrow> selectedBone st = Some bone \<Longrightarrow> gizmoDrag st = Some g \<Longrightarrow>
   handleMouseMove st e =
     st\<lparr>bonePositions := (bonePositions st)
          (bone := axis_set axis (startVal g + gizmoMovement st e axis bone g)
                     (bonePositions st bone))\<rparr>"
  by (simp add: handleMouseMove_def handleBoneChange_def Let_def)

lemma axis_set_get: "axis_set axis (axis_get axis p) p = p"
  by (cases axis) simp_all


lemma sqrt_6000: "sqrt 36000000 = 6000"
proof -
  have "sqrt ((6000::real)\<^sup>2) = 6000" by (simp only: real_sqrt_abs abs_numeral)
  then show ?thesis by simp
qed


subsection \<open>The quarter turn in doubles\<close>







subsection \<open>An axis that points away from the camera\<close>










lemma skin_after_left_arm_raise:
  assumes "1.1 \<le> vy" "vy \<le> 1.5" "vx \<le> 0" "bp Left_arm = vec3 (-0.6) 1.3 0"
  shows "getSkinnedVertex (bp(Left_arm := vec3 (-0.6) 1.7 0)) (vx, vy, vz) =
    (case getSkinnedVertex bp (vx, vy, vz) of (sx, sy, sz) \<Rightarrow> (sx, sy + 0.4, sz))"
  using assms
  by (simp add: getSkinnedVertex_def skin_bone_def BONES_def vec3_def Let_def)


lemma drag_step_keeps:
  assumes "drag_event ev"
    and "selectedBone s = Some bone" "activeGizmoAxis s = Some axis" "gizmoDrag s = Some g"
  shows "selectedBone (dispatch s ev) = Some bone \<and>
         activeGizmoAxis (dispatch s ev) = Some axis \<and>
         gizmoDrag (dispatch s ev) = Some g \<and>
         (\<forall>b. b \<noteq> bone \<longrightarrow> bonePositions (dispatch s ev) b = bonePositions s b) \<and>
         (\<forall>a. a \<noteq> axis \<longrightarrow>
            axis_get a (bonePositions (dispatch s ev) bone) = axis_get a (bonePositions s bone))"
proof (cases ev)
  case (MouseMove e)
  have "axis_get a (axis_set axis v p) = axis_get a p" if "a \<noteq> axis" for a v p
    using that by (cases a; cases axis) simp_all
  with assms MouseMove show ?thesis
    by (simp add: handleMouseMove_def handleBoneChange_def Let_def)
next
  case (Wheel d)
  with assms show ?thesis by (simp add: handleWheel_def Let_def)
qed (use assms in simp_all)

lemma drag_run_keeps:
  assumes "\<forall>ev \<in> set moves. drag_event ev"
    and "selectedBone s = Some bone" "activeGizmoAxis s = Some axis" "gizmoDrag s = Some g"
  shows "selectedBone (foldl dispatch s moves) = Some bone \<and>
         activeGizmoAxis (foldl dispatch s moves) = Some axis \<and>
         gizmoDrag (foldl dispatch s moves) = Some g \<and>
         (\<forall>b. b \<noteq> bone \<longrightarrow> bonePositions (foldl dispatch s moves) b = bonePositions s b) \<and>
         (\<forall>a. a \<noteq> axis \<longrightarrow>
            axis_get a (bonePositions (foldl dispatch s moves) bone)
              = axis_get a (bonePositions s bone))"
  using assms
proof (induction moves arbitrary: s)
  case Nil
  then show ?case by simp
next
  case (Cons ev moves)
  from Cons.prems have ev: "drag_event ev" and rest: "\<forall>ev \<in> set moves. drag_event ev"
    by simp_all
  note k = drag_step_keeps [OF ev Cons.prems(2,3,4)]
  from k have 1: "selectedBone (dispatch s ev) = Some bone"
    and 2: "activeGizmoAxis (dispatch s ev) = Some axis"
    and 3: "gizmoDrag (dispatch s ev) = Some g" by blast+
  from Cons.IH [OF rest 1 2 3] k show ?case by simp
qed

text \<open>
  C3. Left-arm is selected at its default position (-0.6, 1.3, 0) and its Y gizmo is
  pressed; any number of moves and wheel turns follow, and the last move of the drag
  adds 0.4 to the start value recorded at the press. Then left-arm is at (-0.6, 1.7, 0),
  whatever the moves before did, and every other bone is where it was before the drag.
  In the next skin pass every vertex with y in [1.1, 1.5] and x <= 0 lies 0.4 higher than
  in the pass before the drag; from the default pose that is the vertex itself raised
  by 0.4.
\<close>

theorem gizmo_drag_left_arm_scenario:
  "selectedBone st = Some Left_arm \<and> bonePositions st Left_arm = vec3 (-0.6) 1.3 0 \<and>
   (\<forall>ev \<in> set moves. drag_event ev) \<and>
   gizmo_run_defined (handleGizmoMouseDown st e0 AxisY) Left_arm AxisY moves \<and>
   gizmoMovement (foldl dispatch (handleGizmoMouseDown st e0 AxisY) moves) e1 AxisY Left_arm
     \<lparr>startX = clientX e0, startY = clientY e0, startVal = 1.3\<rparr> = 0.4 \<longrightarrow>
     bonePositions
       (handleMouseMove (foldl dispatch (handleGizmoMouseDown st e0 AxisY) moves) e1) Left_arm
       = vec3 (-0.6) 1.7 0 \<and>
     (\<forall>b. b \<noteq> Left_arm \<longrightarrow>
        bonePositions
          (handleMouseMove (foldl dispatch (handleGizmoMouseDown st e0 AxisY) moves) e1) b
          = bonePositions st b) \<and>
     (\<forall>vx vy vz. 1.1 \<le> vy \<and> vy \<le> 1.5 \<and> vx \<le> 0 \<longrightarrow>
        getSkinnedVertex
          (bonePositions
             (handleMouseMove (foldl dispatch (handleGizmoMouseDown st e0 AxisY) moves) e1))
          (vx, vy, vz)
        = (case getSkinnedVertex (bonePositions st) (vx, vy, vz) of
             (sx, sy, sz) \<Rightarrow> (sx, sy + 0.4, sz))) \<and>
     (bonePositions st = defaultBonePositions \<longrightarrow>
       (\<forall>vx vy vz. 1.1 \<le> vy \<and> vy \<le> 1.5 \<and> vx \<le> 0 \<longrightarrow>
          getSkinnedVertex
            (bonePositions
               (handleMouseMove (foldl dispatch (handleGizmoMouseDown st e0 AxisY) moves) e1))
            (vx, vy, vz)
          = (vx, vy + 0.4, vz)))"
proof (intro impI)
  let ?s1 = "handleGizmoMouseDown st e0 AxisY"
  let ?sk = "foldl dispatch ?s1 moves"
  let ?g = "\<lparr>startX = clientX e0, startY = clientY e0, startVal = 1.3\<rparr>"
  assume a: "selectedBone st = Some Left_arm \<and> bonePositions st Left_arm = vec3 (-0.6) 1.3 0 \<and>
   (\<forall>ev \<in> set moves. drag_event ev) \<and>
   gizmo_run_defined ?s1 Left_arm AxisY moves \<and>
   gizmoMovement ?sk e1 AxisY Left_arm ?g = 0.4"
  then have sel: "selectedBone st = Some Left_arm"
    and pos: "bonePositions st Left_arm = vec3 (-0.6) 1.3 0"
    and mv: "\<forall>ev \<in> set moves. drag_event ev"
    and gm: "gizmoMovement ?sk e1 AxisY Left_arm ?g = 0.4"
    by blast+
  from sel pos have s1: "?s1 = st\<lparr>activeGizmoAxis := Some AxisY, gizmoDrag := Some ?g\<rparr>"
    by (simp add: handleGizmoMouseDown_def vec3_def)
  have "selectedBone ?s1 = Some Left_arm" "activeGizmoAxis ?s1 = Some AxisY"
    "gizmoDrag ?s1 = Some ?g"
    by (simp_all add: s1 sel)
  note k = drag_run_keeps [OF mv this]
  from k have ksel: "selectedBone ?sk = Some Left_arm"
    and kax: "activeGizmoAxis ?sk = Some AxisY"
    and kg: "gizmoDrag ?sk = Some ?g"
    and kother: "\<forall>b. b \<noteq> Left_arm \<longrightarrow> bonePositions ?sk b = bonePositions ?s1 b"
    and kaxes: "\<forall>a. a \<noteq> AxisY \<longrightarrow>
        axis_get a (bonePositions ?sk Left_arm) = axis_get a (bonePositions ?s1 Left_arm)"
    by blast+
  from kaxes [rule_format, of AxisX] kaxes [rule_format, of AxisZ] pos
  have xz: "v_x (bonePositions ?sk Left_arm) = -0.6" "v_z (bonePositions ?sk Left_arm) = 0"
    by (simp_all add: s1 vec3_def)
  have move: "handleMouseMove ?sk e1 = ?sk\<lparr>bonePositions := (bonePositions ?sk)
          (Left_arm := axis_set AxisY (startVal ?g + gizmoMovement ?sk e1 AxisY Left_arm ?g)
                     (bonePositions ?sk Left_arm))\<rparr>"
    using kax ksel kg by (rule handleMouseMove_gizmo)
  have la: "bonePositions (handleMouseMove ?sk e1) Left_arm = vec3 (-0.6) 1.7 0"
    using xz by (simp only: move gm) (simp add: vec3_def)
  have other: "bonePositions (handleMouseMove ?sk e1) b = bonePositions st b"
    if "b \<noteq> Left_arm" for b
    using that kother by (simp only: move) (simp add: s1)
  have bp2: "bonePositions (handleMouseMove ?sk e1)
      = (bonePositions st)(Left_arm := vec3 (-0.6) 1.7 0)"
    using la other by (intro ext) simp
  have skin: "getSkinnedVertex (bonePositions (handleMouseMove ?sk e1)) (vx, vy, vz)
        = (case getSkinnedVertex (bonePositions st) (vx, vy, vz) of
             (sx, sy, sz) \<Rightarrow> (sx, sy + 0.4, sz))"
    if "1.1 \<le> vy \<and> vy \<le> 1.5 \<and> vx \<le> 0" for vx vy vz
    unfolding bp2 using that pos by (intro skin_after_left_arm_raise) simp_all
  have dflt: "getSkinnedVertex defaultBonePositions (vx, vy, vz) = (vx, vy, vz)" for vx vy vz
    by (rule getSkinnedVertex_default) (rule default_on_BONES)
  show "bonePositions (handleMouseMove ?sk e1) Left_arm = vec3 (-0.6) 1.7 0 \<and>
     (\<forall>b. b \<noteq> Left_arm \<longrightarrow> bonePositions (handleMouseMove ?sk e1) b = bonePositions st b) \<and>
     (\<forall>vx vy vz. 1.1 \<le> vy \<and> vy \<le> 1.5 \<and> vx \<le> 0 \<longrightarrow>
        getSkinnedVertex (bonePositions (handleMouseMove ?sk e1)) (vx, vy, vz)
        = (case getSkinnedVertex (bonePositions st) (vx, vy, vz) of
             (sx, sy, sz) \<Rightarrow> (sx, sy + 0.4, sz))) \<and>
     (bonePositions st = defaultBonePositions \<longrightarrow>
       (\<forall>vx vy vz. 1.1 \<le> vy \<and> vy \<le> 1.5 \<and> vx \<le> 0 \<longrightarrow>
          getSkinnedVertex (bonePositions (handleMouseMove ?sk e1)) (vx, vy, vz)
          = (vx, vy + 0.4, vz)))"
  proof (intro conjI allI impI)
    show "bonePositions (handleMouseMove ?sk e1) Left_arm = vec3 (-0.6) 1.7 0" by (rule la)
    show "bonePositions (handleMouseMove ?sk e1) b = bonePositions st b" if "b \<noteq> Left_arm" for b
      using that by (rule other)
    show "getSkinnedVertex (bonePositions (handleMouseMove ?sk e1)) (vx, vy, vz)
        = (case getSkinnedVertex (bonePositions st) (vx, vy, vz) of
             (sx, sy, sz) \<Rightarrow> (sx, sy + 0.4, sz))"
      if "1.1 \<le> vy \<and> vy \<le> 1.5 \<and> vx \<le> 0" for vx vy vz
      using that by (rule skin)
    show "getSkinnedVertex (bonePositions (handleMouseMove ?sk e1)) (vx, vy, vz)
          = (vx, vy + 0.4, vz)"
      if "bonePositions st = defaultBonePositions" "1.1 \<le> vy \<and> vy \<le> 1.5 \<and> vx \<le> 0"
      for vx vy vz
      using skin [OF that(2)] that(1) by (simp add: dflt)
  qed
qed

theorem gizmo_drag_left_arm_scenario_witness:
  "bonePositions
     (handleMouseMove
        (foldl dispatch
           (handleGizmoMouseDown
              (initialAnimator\<lparr>selectedBone := Some Left_arm,
                 rotation := \<lparr>rot_x = 0, rot_y = 0\<rparr>\<rparr>)
              \<lparr>clientX = 0, clientY = 0\<rparr> AxisY)
           [MouseMove \<lparr>clientX = 0, clientY = -240\<rparr>])
        \<lparr>clientX = 0, clientY = -480\<rparr>) Left_arm = vec3 (-0.6) 1.7 0 \<and>
   bonePositions
     (handleMouseMove
        (foldl dispatch
           (handleGizmoMouseDown
              (initialAnimator\<lparr>selectedBone := Some Left_arm,
                 rotation := \<lparr>rot_x = 0, rot_y = 0\<rparr>\<rparr>)
              \<lparr>clientX = 0, clientY = 0\<rparr> AxisY)
           [MouseMove \<lparr>clientX = 0, clientY = -240\<rparr>])
        \<lparr>clientX = 0, clientY = -480\<rparr>) Right_arm = vec3 0.6 1.3 0 \<and>
   getSkinnedVertex
     (bonePositions
        (handleMouseMove
           (foldl dispatch
              (handleGizmoMouseDown
                 (initialAnimator\<lparr>selectedBone := Some Left_arm,
                    rotation := \<lparr>rot_x = 0, rot_y = 0\<rparr>\<rparr>)
                 \<lparr>clientX = 0, clientY = 0\<rparr> AxisY)
              [MouseMove \<lparr>clientX = 0, clientY = -240\<rparr>])
           \<lparr>clientX = 0, clientY = -480\<rparr>))
     (-0.5, 1.2, 0.25) = (-0.5, 1.6, 0.25)"
proof -
  let ?s = "initialAnimator\<lparr>selectedBone := Some Left_arm,
              rotation := \<lparr>rot_x = 0, rot_y = 0\<rparr>\<rparr>"
  let ?e0 = "\<lparr>clientX = 0, clientY = 0\<rparr>"
  let ?e1 = "\<lparr>clientX = 0, clientY = -480\<rparr>"
  let ?moves = "[MouseMove \<lparr>clientX = 0, clientY = -240\<rparr>]"
  let ?g = "\<lparr>startX = 0, startY = 0, startVal = 1.3\<rparr>"
  let ?sk = "foldl dispatch (handleGizmoMouseDown ?s ?e0 AxisY) ?moves"
  have sel: "selectedBone ?s = Some Left_arm" by simp
  have pos: "bonePositions ?s Left_arm = vec3 (-0.6) 1.3 0"
    by (simp add: initialAnimator_def defaultBonePositions_simps)
  have all: "bonePositions ?s = defaultBonePositions"
    by (simp add: initialAnimator_def)
  have s1: "handleGizmoMouseDown ?s ?e0 AxisY
      = ?s\<lparr>activeGizmoAxis := Some AxisY, gizmoDrag := Some ?g\<rparr>"
    by (simp add: handleGizmoMouseDown_def initialAnimator_def defaultBonePositions_simps
        vec3_def)
  have sk: "?sk = ?s\<lparr>activeGizmoAxis := Some AxisY, gizmoDrag := Some ?g,
      bonePositions := defaultBonePositions(Left_arm := vec3 (-0.6) 1.5 0)\<rparr>"
    by (simp only: s1)
       (simp add: initialAnimator_def defaultBonePositions_simps vec3_def handleMouseMove_def
          handleBoneChange_def gizmoMovement_def gizmoScreenVec_def project_def sqrt_6000
          Let_def)
  have mv: "\<forall>ev \<in> set ?moves. drag_event ev" by simp
  have dfd: "gizmo_run_defined (handleGizmoMouseDown ?s ?e0 AxisY) Left_arm AxisY ?moves"
    unfolding gizmo_run_defined.simps foldl.simps [symmetric]
    by (simp only: s1)
       (simp add: initialAnimator_def defaultBonePositions_simps vec3_def handleMouseMove_def
          handleBoneChange_def gizmoMovement_def gizmoScreenVec_def project_def sqrt_6000
          gizmo_projection_defined_def Let_def)
  have gm: "gizmoMovement ?sk ?e1 AxisY Left_arm
     \<lparr>startX = clientX ?e0, startY = clientY ?e0, startVal = 1.3\<rparr> = 0.4"
    by (simp only: sk)
       (simp add: gizmoMovement_def gizmoScreenVec_def initialAnimator_def vec3_def
          project_def sqrt_6000 Let_def)
  from sel pos mv dfd gm
  have pre: "selectedBone ?s = Some Left_arm \<and> bonePositions ?s Left_arm = vec3 (-0.6) 1.3 0 \<and>
     (\<forall>ev \<in> set ?moves. drag_event ev) \<and>
     gizmo_run_defined (handleGizmoMouseDown ?s ?e0 AxisY) Left_arm AxisY ?moves \<and>
     gizmoMovement ?sk ?e1 AxisY Left_arm
       \<lparr>startX = clientX ?e0, startY = clientY ?e0, startVal = 1.3\<rparr> = 0.4"
    by blast
  note r = gizmo_drag_left_arm_scenario [of ?s ?moves ?e0 ?e1, THEN mp, OF pre]
  from r have 1: "bonePositions (handleMouseMove ?sk ?e1) Left_arm = vec3 (-0.6) 1.7 0"
    by blast
  from r have "bonePositions (handleMouseMove ?sk ?e1) Right_arm = bonePositions ?s Right_arm"
    by simp
  then have 2: "bonePositions (handleMouseMove ?sk ?e1) Right_arm = vec3 0.6 1.3 0"
    by (simp add: initialAnimator_def defaultBonePositions_simps)
  from r all have "\<forall>vx vy vz. 1.1 \<le> vy \<and> vy \<le> 1.5 \<and> vx \<le> 0 \<longrightarrow>
      getSkinnedVertex (bonePositions (handleMouseMove ?sk ?e1)) (vx, vy, vz)
      = (vx, vy + 0.4, vz)"
    by blast
  from this [rule_format, of "1.2" "-0.5" "0.25"]
  have 3: "getSkinnedVertex (bonePositions (handleMouseMove ?sk ?e1))
      (-0.5, 1.2, 0.25) = (-0.5, 1.6, 0.25)"
    by simp
  from 1 2 3 show ?thesis by blast
qed

end
